theory Spec2Isabelle
  imports Main "HOL-Library.Multiset" "HOL-Library.AList"
begin

section \<open>JavaScript values\<close>

text \<open>
  A JavaScript string is a sequence of UTF-16 code units. The Thai field names, award
  names and messages of the source are written out as their code units; \<open>js\<close> embeds
  an ASCII literal.
\<close>

type_synonym jsstring = "nat list"

definition js :: "string \<Rightarrow> jsstring" where
  "js s = map of_char s"

text \<open>
  The values a record field of a JSON payload can hold. Numbers are integers (exact for
  every safe integer of the source); fractional numbers and nested arrays or objects as
  field values are outside the model. \<open>JUndefined\<close> is also what reading an absent
  property gives.
\<close>

datatype jsval = JUndefined | JNull | JBool bool | JNum int | JStr jsstring

fun truthy :: "jsval \<Rightarrow> bool" where
  "truthy JUndefined = False"
| "truthy JNull = False"
| "truthy (JBool b) = b"
| "truthy (JNum n) = (n \<noteq> 0)"
| "truthy (JStr s) = (s \<noteq> [])"

text \<open>\<open>a ?? b\<close> and \<open>a || b\<close>.\<close>

fun nullish :: "jsval \<Rightarrow> bool" where
  "nullish JUndefined = True"
| "nullish JNull = True"
| "nullish _ = False"

definition coalesce :: "jsval \<Rightarrow> jsval \<Rightarrow> jsval" where
  "coalesce a b = (if nullish a then b else a)"

definition js_or :: "jsval \<Rightarrow> jsval \<Rightarrow> jsval" where
  "js_or a b = (if truthy a then a else b)"

text \<open>Decimal digits of a natural number, most significant first.\<close>

fun digits_of :: "nat \<Rightarrow> jsstring" where
  "digits_of n = (if n < 10 then [48 + n] else digits_of (n div 10) @ [48 + n mod 10])"

declare digits_of.simps [simp del]

definition int_to_string :: "int \<Rightarrow> jsstring" where
  "int_to_string i = (if i < 0 then 45 # digits_of (nat (- i)) else digits_of (nat i))"

text \<open>\<open>String(v)\<close>.\<close>

fun String :: "jsval \<Rightarrow> jsstring" where
  "String JUndefined = js ''undefined''"
| "String JNull = js ''null''"
| "String (JBool b) = (if b then js ''true'' else js ''false'')"
| "String (JNum n) = int_to_string n"
| "String (JStr s) = s"

text \<open>
  The code units \<open>String.prototype.trim\<close> strips: the WhiteSpace and LineTerminator
  productions of ECMAScript (TAB, LF, VT, FF, CR, SP, NBSP, the Unicode space separators,
  LS, PS and the byte order mark).
\<close>

definition is_space :: "nat \<Rightarrow> bool" where
  "is_space c \<longleftrightarrow>
     (9 \<le> c \<and> c \<le> 13) \<or> c = 32 \<or> c = 160 \<or> c = 5760 \<or> (8192 \<le> c \<and> c \<le> 8202)
     \<or> c = 8232 \<or> c = 8233 \<or> c = 8239 \<or> c = 8287 \<or> c = 12288 \<or> c = 65279"

definition trim_start :: "jsstring \<Rightarrow> jsstring" where
  "trim_start s = dropWhile is_space s"

definition trim :: "jsstring \<Rightarrow> jsstring" where
  "trim s = rev (dropWhile is_space (rev (dropWhile is_space s)))"

text \<open>
  \<open>toLowerCase\<close> on the letters A to Z. Case mapping of code units outside ASCII is
  not modelled; no key or keyword the source compares against needs it.
\<close>

definition toLowerCase :: "jsstring \<Rightarrow> jsstring" where
  "toLowerCase s = map (\<lambda>c. if 65 \<le> c \<and> c \<le> 90 then c + 32 else c) s"

text \<open>
  \<open>parseInt(v, radix)\<close>: the argument is converted with \<open>String\<close>, leading white space
  and one sign are skipped, a \<open>0x\<close> prefix selects radix 16 when no radix (or 16) is given,
  and the longest prefix of digits is read; no digit gives \<open>NaN\<close>, here \<open>None\<close>. The
  source passes radix 10 or none.
\<close>

definition digit_value :: "nat \<Rightarrow> nat option" where
  "digit_value c =
     (if 48 \<le> c \<and> c \<le> 57 then Some (c - 48)
      else if 97 \<le> c \<and> c \<le> 122 then Some (c - 87)
      else if 65 \<le> c \<and> c \<le> 90 then Some (c - 55)
      else None)"

definition is_digit :: "nat \<Rightarrow> nat \<Rightarrow> bool" where
  "is_digit radix c = (case digit_value c of None \<Rightarrow> False | Some d \<Rightarrow> d < radix)"

definition digits_value :: "nat \<Rightarrow> jsstring \<Rightarrow> nat" where
  "digits_value radix ds =
     foldl (\<lambda>acc c. acc * radix + (case digit_value c of None \<Rightarrow> 0 | Some d \<Rightarrow> d)) 0 ds"

definition parseInt_string :: "nat option \<Rightarrow> jsstring \<Rightarrow> int option" where
  "parseInt_string radix s =
     (let s1 = trim_start s;
          neg = (case s1 of [] \<Rightarrow> False | c # _ \<Rightarrow> c = 45);
          s2 = (case s1 of [] \<Rightarrow> [] | c # cs \<Rightarrow> if c = 43 \<or> c = 45 then cs else s1);
          hex = ((radix = None \<or> radix = Some 16) \<and>
                 (case s2 of a # b # _ \<Rightarrow> a = 48 \<and> (b = 120 \<or> b = 88) | _ \<Rightarrow> False));
          r = (if hex then 16 else case radix of None \<Rightarrow> 10 | Some k \<Rightarrow> k);
          s3 = (if hex then drop 2 s2 else s2);
          ds = takeWhile (is_digit r) s3
      in if ds = [] then None
         else Some ((if neg then - 1 else 1) * int (digits_value r ds)))"

definition parseInt :: "nat option \<Rightarrow> jsval \<Rightarrow> int option" where
  "parseInt radix v = parseInt_string radix (String v)"

section \<open>Configuration and the global cache\<close>

text \<open>\<open>CONFIG.CACHE.TIMEOUT = 60 * 60 * 1000\<close> and \<open>CONFIG.APP.VERSION\<close>.\<close>

definition CACHE_TIMEOUT :: int where
  "CACHE_TIMEOUT = 60 * 60 * 1000"

definition APP_VERSION :: jsstring where
  "APP_VERSION = js ''2.0.0''"

text \<open>An \<open>Error\<close> object, with its message.\<close>

datatype error = Error jsstring

fun message :: "error \<Rightarrow> jsstring" where
  "message (Error m) = m"

text \<open>
  A per-category error slot of the catalogue: \<open>null\<close>, the \<open>Error\<close> a rejected fetch
  gave, or the empty object that an \<open>Error\<close> becomes after \<open>JSON.stringify\<close> and
  \<open>JSON.parse\<close> (its \<open>message\<close> and \<open>stack\<close> are not enumerable).
\<close>

datatype error_slot = SlotNull | SlotError error | SlotEmptyObject

fun slot_truthy :: "error_slot \<Rightarrow> bool" where
  "slot_truthy SlotNull = False"
| "slot_truthy _ = True"

text \<open>
  The object \<open>fetchAllCompetitions\<close> resolves with:
  \<open>{science, gem, errors: {science, gem}}\<close>, over raw records of type \<open>'c\<close>.
\<close>

record 'c catalogue =
  science :: "'c list"
  gem :: "'c list"
  errors_science :: error_slot
  errors_gem :: error_slot

text \<open>
  A \<open>Map\<close> is the list of its entries in insertion order, with pairwise distinct keys:
  \<open>set\<close> replaces the value of a key in place or appends a new entry, \<open>get\<close> and
  \<open>has\<close> look the key up, \<open>delete\<close> removes its entry.
\<close>

type_synonym ('k, 'v) jsmap = "('k \<times> 'v) list"

definition map_set :: "'k \<Rightarrow> 'v \<Rightarrow> ('k, 'v) jsmap \<Rightarrow> ('k, 'v) jsmap" where
  "map_set k v m = AList.update k v m"

definition map_get :: "('k, 'v) jsmap \<Rightarrow> 'k \<Rightarrow> 'v option" where
  "map_get m k = map_of m k"

definition map_has :: "('k, 'v) jsmap \<Rightarrow> 'k \<Rightarrow> bool" where
  "map_has m k \<longleftrightarrow> map_of m k \<noteq> None"

definition map_delete :: "'k \<Rightarrow> ('k, 'v) jsmap \<Rightarrow> ('k, 'v) jsmap" where
  "map_delete k m = AList.delete k m"

text \<open>
  \<open>GLOBAL_CACHE\<close>: the catalogue (or \<open>null\<close>), the \<open>Map\<close> from competition id to its raw
  result rows, the timestamp (or \<open>null\<close>) and the loaded flag.
\<close>

record ('c, 'r) global_cache =
  competitions :: "'c catalogue option"
  results :: "(jsval, 'r list) jsmap"
  lastUpdated :: "int option"
  isLoaded :: bool

text \<open>
  \<open>isCacheValid()\<close> at clock reading \<open>now\<close> (the value of \<open>Date.now()\<close>). The
  conjunction \<open>isLoaded && lastUpdated && (now - lastUpdated) < TIMEOUT\<close> evaluates to
  \<open>true\<close> exactly when all three operands are truthy, and to \<open>false\<close>, \<open>null\<close> or \<open>0\<close>
  otherwise; the model returns whether the result is \<open>true\<close>.
\<close>

definition isCacheValid :: "int \<Rightarrow> ('c, 'r) global_cache \<Rightarrow> bool" where
  "isCacheValid now g \<longleftrightarrow>
     isLoaded g \<and>
     (case lastUpdated g of
        None \<Rightarrow> False
      | Some t \<Rightarrow> t \<noteq> 0 \<and> now - t < CACHE_TIMEOUT)"

text \<open>
  The elapsed time the subtraction \<open>Date.now() - GLOBAL_CACHE.lastUpdated\<close> computes;
  \<open>null\<close> converts to 0.
\<close>

definition elapsed :: "int \<Rightarrow> ('c, 'r) global_cache \<Rightarrow> int" where
  "elapsed now g = now - (case lastUpdated g of None \<Rightarrow> 0 | Some t \<Rightarrow> t)"

definition clearGlobalCache :: "('c, 'r) global_cache \<Rightarrow> ('c, 'r) global_cache" where
  "clearGlobalCache g =
     g\<lparr>competitions := None, results := [], lastUpdated := None, isLoaded := False\<rparr>"

section \<open>Remote fetcher\<close>

text \<open>The messages of \<open>CONFIG.ERRORS\<close> that the fetcher raises.\<close>

definition ERRORS_NETWORK :: jsstring where
  "ERRORS_NETWORK =
     [0xe44, 0xe21, 0xe48, 0xe2a, 0xe32, 0xe21, 0xe32, 0xe23, 0xe16, 0xe40, 0xe0a, 0xe37,
      0xe48, 0xe2d, 0xe21, 0xe15, 0xe48, 0xe2d, 0xe40, 0xe04, 0xe23, 0xe37, 0xe2d, 0xe02,
      0xe48, 0xe32, 0xe22, 0xe44, 0xe14, 0xe49, 0x20, 0xe01, 0xe23, 0xe38, 0xe13, 0xe32,
      0xe25, 0xe2d, 0xe07, 0xe2d, 0xe35, 0xe01, 0xe04, 0xe23, 0xe31, 0xe49, 0xe07]"

definition ERRORS_API_ERROR :: jsstring where
  "ERRORS_API_ERROR =
     [0xe40, 0xe01, 0xe34, 0xe14, 0xe02, 0xe49, 0xe2d, 0xe1c, 0xe34, 0xe14, 0xe1e, 0xe25,
      0xe32, 0xe14, 0xe43, 0xe19, 0xe01, 0xe32, 0xe23, 0xe42, 0xe2b, 0xe25, 0xe14, 0xe02,
      0xe49, 0xe2d, 0xe21, 0xe39, 0xe25]"

definition ERRORS_TIMEOUT :: jsstring where
  "ERRORS_TIMEOUT =
     [0xe2b, 0xe21, 0xe14, 0xe40, 0xe27, 0xe25, 0xe32, 0xe01, 0xe32, 0xe23, 0xe40, 0xe0a,
      0xe37, 0xe48, 0xe2d, 0xe21, 0xe15, 0xe48, 0xe2d, 0x20, 0xe01, 0xe23, 0xe38, 0xe13,
      0xe32, 0xe25, 0xe2d, 0xe07, 0xe2d, 0xe35, 0xe01, 0xe04, 0xe23, 0xe31, 0xe49, 0xe07]"

definition ERRORS_SCIENCE_LOAD_FAILED :: jsstring where
  "ERRORS_SCIENCE_LOAD_FAILED =
     [0xe44, 0xe21, 0xe48, 0xe2a, 0xe32, 0xe21, 0xe32, 0xe23, 0xe16, 0xe42, 0xe2b, 0xe25,
      0xe14, 0xe23, 0xe32, 0xe22, 0xe01, 0xe32, 0xe23, 0xe01, 0xe32, 0xe23, 0xe41, 0xe02,
      0xe48, 0xe07, 0xe02, 0xe31, 0xe19, 0xe27, 0xe34, 0xe17, 0xe22, 0xe32, 0xe28, 0xe32,
      0xe2a, 0xe15, 0xe23, 0xe4c, 0xe44, 0xe14, 0xe49]"

definition ERRORS_GEM_LOAD_FAILED :: jsstring where
  "ERRORS_GEM_LOAD_FAILED =
     [0xe44, 0xe21, 0xe48, 0xe2a, 0xe32, 0xe21, 0xe32, 0xe23, 0xe16, 0xe42, 0xe2b, 0xe25,
      0xe14, 0xe23, 0xe32, 0xe22, 0xe01, 0xe32, 0xe23, 0xe01, 0xe32, 0xe23, 0xe41, 0xe02,
      0xe48, 0xe07, 0xe02, 0xe31, 0xe19, 0xe40, 0xe08, 0xe35, 0xe22, 0xe23, 0xe30, 0xe44,
      0xe19, 0xe40, 0xe1e, 0xe0a, 0xe23, 0xe44, 0xe14, 0xe49]"

text \<open>
  The payload \<open>{success, data, error}\<close> the remote script passes to the callback, and
  the three ways a JSONP request ends: the callback fires (with a payload, or with
  \<open>null\<close>), the script element errors, or the timeout fires first.
\<close>

record 'a response =
  res_success :: bool
  res_data :: "'a list option"
  res_error :: "jsstring option"

datatype 'a jsonp_event = Callback "'a response option" | ScriptError | Timeout

text \<open>
  \<open>simpleJSONP\<close>: the promise's outcome for each event; \<open>Inl\<close> is a rejection.
  \<open>resolve(response.data || [])\<close>, \<open>reject(new Error(response?.error || API_ERROR))\<close>.
\<close>

fun simpleJSONP :: "'a jsonp_event \<Rightarrow> error + 'a list" where
  "simpleJSONP (Callback (Some r)) =
     (if res_success r then Inr (case res_data r of None \<Rightarrow> [] | Some d \<Rightarrow> d)
      else Inl (Error (case res_error r of
                         None \<Rightarrow> ERRORS_API_ERROR
                       | Some e \<Rightarrow> if e \<noteq> [] then e else ERRORS_API_ERROR)))"
| "simpleJSONP (Callback None) = Inl (Error ERRORS_API_ERROR)"
| "simpleJSONP ScriptError = Inl (Error ERRORS_NETWORK)"
| "simpleJSONP Timeout = Inl (Error ERRORS_TIMEOUT)"

text \<open>
  \<open>fetchScienceCompetitions\<close> and \<open>fetchGemCompetitions\<close> (\<open>CONFIG.MOCK.ENABLED\<close> is
  false, so the JSONP branch runs): any failure is replaced by the category's message.
\<close>

definition fetchScienceCompetitions :: "'a jsonp_event \<Rightarrow> error + 'a list" where
  "fetchScienceCompetitions ev =
     (case simpleJSONP ev of
        Inr v \<Rightarrow> Inr v
      | Inl e \<Rightarrow> Inl (Error ERRORS_SCIENCE_LOAD_FAILED))"

definition fetchGemCompetitions :: "'a jsonp_event \<Rightarrow> error + 'a list" where
  "fetchGemCompetitions ev =
     (case simpleJSONP ev of
        Inr v \<Rightarrow> Inr v
      | Inl e \<Rightarrow> Inl (Error ERRORS_GEM_LOAD_FAILED))"

text \<open>
  \<open>Promise.allSettled\<close> turns each outcome into a settled record and never rejects.
\<close>

datatype 'a settled = Fulfilled "'a list" | Rejected error

fun settle :: "error + 'a list \<Rightarrow> 'a settled" where
  "settle (Inr v) = Fulfilled v"
| "settle (Inl e) = Rejected e"

text \<open>
  \<open>fetchAllCompetitions\<close>, given the outcomes of the two category fetches. Nothing in
  its \<open>try\<close> block throws, so the \<open>catch\<close> that rethrows has no branch here; the result
  keeps the sum type of an \<open>async\<close> function.
\<close>

definition fetchAllCompetitions ::
  "error + 'a list \<Rightarrow> error + 'a list \<Rightarrow> error + 'a catalogue" where
  "fetchAllCompetitions scienceOutcome gemOutcome =
     (let scienceCompetitions = settle scienceOutcome;
          gemCompetitions = settle gemOutcome
      in Inr \<lparr>science = (case scienceCompetitions of Fulfilled v \<Rightarrow> v | Rejected _ \<Rightarrow> []),
              gem = (case gemCompetitions of Fulfilled v \<Rightarrow> v | Rejected _ \<Rightarrow> []),
              errors_science =
                (case scienceCompetitions of Rejected e \<Rightarrow> SlotError e | Fulfilled _ \<Rightarrow> SlotNull),
              errors_gem =
                (case gemCompetitions of Rejected e \<Rightarrow> SlotError e | Fulfilled _ \<Rightarrow> SlotNull)\<rparr>)"

section \<open>Competitions\<close>

text \<open>A raw competition record as the remote endpoint sends it.\<close>

record raw_competition =
  raw_id :: jsval
  raw_name :: jsval
  raw_category :: jsval
  raw_level :: jsval
  raw_status :: jsval
  raw_description :: jsval
  raw_participantCount :: jsval
  raw_icon :: jsval
  raw_date :: jsval

text \<open>The normalized competition that \<open>normalizeCompetition\<close> builds.\<close>

record competition =
  c_id :: jsstring
  c_name :: jsstring
  c_category :: jsstring
  c_level :: jsstring
  c_status :: jsstring
  c_description :: jsstring
  c_participantCount :: int
  c_icon :: jsval
  c_date :: jsval
  c_orderIndex :: nat

text \<open>
  \<open>validateCompetition\<close>: every required field is an own property and is neither
  \<open>null\<close>, \<open>undefined\<close> nor the empty string. (The call to \<open>Utils.logError\<close> only
  writes to the console.)
\<close>

definition field_present :: "jsval \<Rightarrow> bool" where
  "field_present v \<longleftrightarrow> v \<noteq> JUndefined \<and> v \<noteq> JNull \<and> v \<noteq> JStr []"

definition validateCompetition :: "raw_competition \<Rightarrow> bool" where
  "validateCompetition competition =
     list_all (\<lambda>field. field_present (field competition)) [raw_id, raw_name]"

text \<open>The level sentinel and the default icons, as code units.\<close>

definition ALL_LEVELS :: jsstring where
  "ALL_LEVELS = [0xe17, 0xe38, 0xe01, 0xe23, 0xe30, 0xe14, 0xe31, 0xe1a]"

definition getDefaultIcon :: "jsstring \<Rightarrow> jsstring" where
  "getDefaultIcon category =
     (if category = js ''gem'' then [0xd83d, 0xdc8e] else [0xd83d, 0xdd2c])"

text \<open>
  \<open>normalizeCompetition\<close>, applied to the record extended with \<open>__orderIndex: idx\<close>
  (always a number when it comes from \<open>processCompetitions\<close>).
\<close>

definition normalizeCompetition :: "raw_competition \<Rightarrow> nat \<Rightarrow> jsstring \<Rightarrow> competition" where
  "normalizeCompetition competition idx category =
     \<lparr>c_id = trim (String (raw_id competition)),
      c_name = trim (String (raw_name competition)),
      c_category =
        (if category \<noteq> [] then category
         else trim (toLowerCase (String (js_or (raw_category competition) (JStr (js ''science'')))))),
      c_level =
        (if truthy (raw_level competition) then trim (String (raw_level competition))
         else ALL_LEVELS),
      c_status = trim (toLowerCase (String (js_or (raw_status competition) (JStr (js ''completed''))))),
      c_description =
        (if truthy (raw_description competition) then trim (String (raw_description competition))
         else []),
      c_participantCount =
        (case parseInt None (raw_participantCount competition) of None \<Rightarrow> 0 | Some n \<Rightarrow> n),
      c_icon = js_or (raw_icon competition) (JStr (getDefaultIcon category)),
      c_date = js_or (raw_date competition) JNull,
      c_orderIndex = idx\<rparr>"

text \<open>
  \<open>processCompetitions\<close>: filter, then normalize with the index in the filtered array.
  \<open>keepSheetOrder\<close> is the constant \<open>true\<close>, so the items are returned unsorted.
\<close>

definition processCompetitions :: "raw_competition list \<Rightarrow> jsstring \<Rightarrow> competition list" where
  "processCompetitions rawCompetitions category =
     map (\<lambda>(idx, c). normalizeCompetition c idx category)
       (enumerate 0 (filter validateCompetition rawCompetitions))"

section \<open>Results\<close>

text \<open>
  A raw result row. The remote sheet names its columns in English or in Thai, so each
  datum has a field per name the source reads: \<open>rr_school_th\<close> is the property
  \<open>[0xe42, 0xe23, 0xe07, 0xe40, 0xe23, 0xe35, 0xe22, 0xe19]\<close> (school),
  \<open>rr_award_th\<close> is \<open>[0xe23, 0xe32, 0xe07, 0xe27, 0xe31, 0xe25]\<close> (award),
  \<open>rr_level_th\<close> is \<open>[0xe23, 0xe30, 0xe14, 0xe31, 0xe1a]\<close> (level),
  \<open>rr_type_th\<close> is \<open>[0xe1b, 0xe23, 0xe30, 0xe40, 0xe20, 0xe17]\<close> (type),
  \<open>rr_rank_th\<close> is \<open>[0xe25, 0xe33, 0xe14, 0xe31, 0xe1a, 0xe17, 0xe35, 0xe48]\<close> (rank),
  and \<open>rr_cert_th1\<close>, \<open>rr_cert_th2\<close> are the two spellings of the certificate column.
\<close>

record raw_result =
  rr_school :: jsval
  rr_school_th :: jsval
  rr_award :: jsval
  rr_award_th :: jsval
  rr_level :: jsval
  rr_level_th :: jsval
  rr_type :: jsval
  rr_type_th :: jsval
  rr_rank_th :: jsval
  rr_rank :: jsval
  rr_cert_th1 :: jsval
  rr_cert_th2 :: jsval
  rr_certificate_url :: jsval
  rr_certificateUrl :: jsval
  rr_participants :: jsval
  rr_coach :: jsval
  rr_project_title :: jsval
  rr_notes :: jsval

text \<open>The normalized result; \<open>r_rank = None\<close> is \<open>null\<close>.\<close>

record result =
  r_competitionId :: jsval
  r_rank :: "int option"
  r_level :: jsstring
  r_type :: jsstring
  r_award :: jsstring
  r_school :: jsstring
  r_participants :: jsstring
  r_coach :: jsstring
  r_certificateUrl :: jsstring
  r_projectTitle :: jsstring
  r_notes :: jsstring

text \<open>\<open>validateResult\<close>; \<open>filter\<close> reads the returned value by its truthiness.\<close>

definition validateResult :: "raw_result \<Rightarrow> bool" where
  "validateResult r =
     (let school = coalesce (rr_school r) (rr_school_th r);
          award = coalesce (rr_award r) (rr_award_th r);
          hasSchool = (truthy school \<and> trim (String school) \<noteq> []);
          hasAward = (truthy award \<and> trim (String award) \<noteq> [])
      in hasSchool \<or> hasAward)"

definition text_or_dash :: "jsval \<Rightarrow> jsstring" where
  "text_or_dash v = (if truthy v then trim (String v) else js ''-'')"

definition text_or_empty :: "jsval \<Rightarrow> jsstring" where
  "text_or_empty v = (if truthy v then trim (String v) else [])"

definition normalizeResult :: "raw_result \<Rightarrow> jsval \<Rightarrow> result" where
  "normalizeResult r competitionId =
     (let level = coalesce (coalesce (rr_level r) (rr_level_th r)) (JStr []);
          type = coalesce (coalesce (rr_type r) (rr_type_th r)) (JStr []);
          award = coalesce (coalesce (rr_award r) (rr_award_th r)) (JStr []);
          school = coalesce (coalesce (rr_school r) (rr_school_th r)) (JStr []);
          certTh = coalesce (coalesce (rr_cert_th1 r) (rr_cert_th2 r)) (JStr []);
          certEn = coalesce (coalesce (rr_certificate_url r) (rr_certificateUrl r)) (JStr [])
      in \<lparr>r_competitionId = competitionId,
          r_rank = parseInt (Some 10) (coalesce (coalesce (rr_rank_th r) (rr_rank r)) (JStr [])),
          r_level = trim (String level),
          r_type = trim (String type),
          r_award = trim (String award),
          r_school = trim (String school),
          r_participants = text_or_dash (rr_participants r),
          r_coach = text_or_dash (rr_coach r),
          r_certificateUrl = trim (String (js_or (js_or certEn certTh) (JStr []))),
          r_projectTitle = text_or_empty (rr_project_title r),
          r_notes = text_or_empty (rr_notes r)\<rparr>)"

subsection \<open>Award tiers\<close>

record award_config =
  a_id :: jsstring
  a_name :: jsstring
  a_rank :: int
  a_color :: jsstring
  a_icon :: jsstring

text \<open>The Thai award names of \<open>CONFIG.AWARDS\<close> and of the keys of \<open>awardMap\<close>.\<close>

definition NAME_CHAMPION :: jsstring where
  "NAME_CHAMPION = [0xe0a, 0xe19, 0xe30, 0xe40, 0xe25, 0xe34, 0xe28]"

definition NAME_RUNNER_UP :: jsstring where
  "NAME_RUNNER_UP =
     [0xe23, 0xe2d, 0xe07, 0xe0a, 0xe19, 0xe30, 0xe40, 0xe25, 0xe34, 0xe28, 0xe2d, 0xe31,
      0xe19, 0xe14, 0xe31, 0xe1a]"

definition NAME_HONORABLE :: jsstring where
  "NAME_HONORABLE = [0xe0a, 0xe21, 0xe40, 0xe0a, 0xe22]"

definition NAME_PARTICIPANT :: jsstring where
  "NAME_PARTICIPANT = [0xe40, 0xe02, 0xe49, 0xe32, 0xe23, 0xe48, 0xe27, 0xe21]"

definition CHAMPION :: award_config where
  "CHAMPION = \<lparr>a_id = js ''champion'', a_name = NAME_CHAMPION, a_rank = 1,
     a_color = js ''#d4af37'', a_icon = [0xd83e, 0xdd47]\<rparr>"

definition FIRST_RUNNER :: award_config where
  "FIRST_RUNNER = \<lparr>a_id = js ''first-runner'', a_name = NAME_RUNNER_UP @ js '' 1'', a_rank = 2,
     a_color = js ''#c0c0c0'', a_icon = [0xd83e, 0xdd48]\<rparr>"

definition SECOND_RUNNER :: award_config where
  "SECOND_RUNNER = \<lparr>a_id = js ''second-runner'', a_name = NAME_RUNNER_UP @ js '' 2'', a_rank = 3,
     a_color = js ''#cd7f32'', a_icon = [0xd83e, 0xdd49]\<rparr>"

definition THIRD_RUNNER :: award_config where
  "THIRD_RUNNER = \<lparr>a_id = js ''third-runner'', a_name = NAME_RUNNER_UP @ js '' 3'', a_rank = 4,
     a_color = js ''#8b4513'', a_icon = [0xd83c, 0xdfc6]\<rparr>"

definition HONORABLE :: award_config where
  "HONORABLE = \<lparr>a_id = js ''honorable'', a_name = NAME_HONORABLE, a_rank = 5,
     a_color = js ''#3498db'', a_icon = [0xd83c, 0xdfc5]\<rparr>"

definition PARTICIPANT :: award_config where
  "PARTICIPANT = \<lparr>a_id = js ''participant'', a_name = NAME_PARTICIPANT, a_rank = 6,
     a_color = js ''#95a5a6'', a_icon = [0xd83c, 0xdf96, 0xfe0f]\<rparr>"

definition awardMap :: "(jsstring \<times> award_config) list" where
  "awardMap =
     [(NAME_CHAMPION, CHAMPION),
      (NAME_RUNNER_UP @ js '' 1'', FIRST_RUNNER),
      (NAME_RUNNER_UP @ js ''1'', FIRST_RUNNER),
      (NAME_RUNNER_UP @ js '' 2'', SECOND_RUNNER),
      (NAME_RUNNER_UP @ js ''2'', SECOND_RUNNER),
      (NAME_RUNNER_UP @ js '' 3'', THIRD_RUNNER),
      (NAME_RUNNER_UP @ js ''3'', THIRD_RUNNER),
      (NAME_HONORABLE, HONORABLE),
      (NAME_PARTICIPANT, PARTICIPANT)]"

text \<open>
  \<open>awardMap\<close> is an object literal, so \<open>awardMap[awardName]\<close> also finds the members
  it inherits from \<open>Object.prototype\<close> (those of ECMAScript with its Annex B, as
  browsers have them). Such a member is a function, or the prototype object itself for
  \<open>__proto__\<close>: truthy, and without a \<open>rank\<close> property.
\<close>

definition OBJECT_PROTOTYPE_MEMBERS :: "jsstring list" where
  "OBJECT_PROTOTYPE_MEMBERS =
     [js ''constructor'', js ''__defineGetter__'', js ''__defineSetter__'',
      js ''hasOwnProperty'', js ''__lookupGetter__'', js ''__lookupSetter__'',
      js ''isPrototypeOf'', js ''propertyIsEnumerable'', js ''toString'',
      js ''valueOf'', js ''__proto__'', js ''toLocaleString'']"

datatype award_lookup = Config award_config | Inherited

text \<open>
  \<open>getAwardConfig\<close>: \<open>null\<close> for a falsy name, otherwise
  \<open>awardMap[awardName] || CONFIG.AWARDS.PARTICIPANT\<close>.
\<close>

definition getAwardConfig :: "jsstring \<Rightarrow> award_lookup option" where
  "getAwardConfig awardName =
     (if awardName = [] then None
      else Some (case map_of awardMap awardName of
                   Some c \<Rightarrow> Config c
                 | None \<Rightarrow>
                     if awardName \<in> set OBJECT_PROTOTYPE_MEMBERS then Inherited
                     else Config PARTICIPANT))"

text \<open>\<open>A.rank\<close>, which is \<open>undefined\<close> on an inherited member.\<close>

fun lookup_rank :: "award_lookup \<Rightarrow> int option" where
  "lookup_rank (Config c) = Some (a_rank c)"
| "lookup_rank Inherited = None"

subsection \<open>Comparison and sorting\<close>

text \<open>The numbers a comparator can return.\<close>

datatype jsnum = Finite int | PosInfinity | NegInfinity | NaN

fun js_minus :: "jsnum \<Rightarrow> jsnum \<Rightarrow> jsnum" where
  "js_minus (Finite a) (Finite b) = Finite (a - b)"
| "js_minus (Finite a) PosInfinity = NegInfinity"
| "js_minus (Finite a) NegInfinity = PosInfinity"
| "js_minus PosInfinity (Finite b) = PosInfinity"
| "js_minus PosInfinity NegInfinity = PosInfinity"
| "js_minus NegInfinity (Finite b) = NegInfinity"
| "js_minus NegInfinity PosInfinity = NegInfinity"
| "js_minus _ _ = NaN"

fun positive :: "jsnum \<Rightarrow> bool" where
  "positive (Finite n) = (0 < n)"
| "positive PosInfinity = True"
| "positive _ = False"

fun negative :: "jsnum \<Rightarrow> bool" where
  "negative (Finite n) = (n < 0)"
| "negative NegInfinity = True"
| "negative _ = False"

text \<open>\<open>A.rank - B.rank\<close>: \<open>NaN\<close> when a rank is \<open>undefined\<close>.\<close>

fun rank_minus :: "int option \<Rightarrow> int option \<Rightarrow> jsnum" where
  "rank_minus (Some x) (Some y) = Finite (x - y)"
| "rank_minus _ _ = NaN"

text \<open>
  \<open>toNum\<close> of \<open>a.rank ?? a[rank_th]\<close> on a normalized result: a null rank falls through
  to the absent Thai property, \<open>Number(undefined)\<close> is \<open>NaN\<close>, and the rank becomes
  \<open>+Infinity\<close>.
\<close>

definition toNum :: "int option \<Rightarrow> jsnum" where
  "toNum v = (case v of None \<Rightarrow> PosInfinity | Some n \<Rightarrow> Finite n)"

text \<open>
  \<open>compareResults\<close>. The collation \<open>localeCompare(_, 'th')\<close> of the platform is the
  parameter \<open>lc\<close>.
\<close>

definition compareResults :: "(jsstring \<Rightarrow> jsstring \<Rightarrow> int) \<Rightarrow> result \<Rightarrow> result \<Rightarrow> jsnum" where
  "compareResults lc a b =
     (let ra = toNum (r_rank a); rb = toNum (r_rank b)
      in if ra \<noteq> rb then js_minus ra rb
         else
           case (getAwardConfig (r_award a), getAwardConfig (r_award b)) of
             (Some A, Some B) \<Rightarrow>
               if lookup_rank A \<noteq> lookup_rank B
               then rank_minus (lookup_rank A) (lookup_rank B)
               else Finite (lc (r_school a) (r_school b))
           | (Some A, None) \<Rightarrow> Finite (- 1)
           | (None, Some B) \<Rightarrow> Finite 1
           | (None, None) \<Rightarrow> Finite (lc (r_school a) (r_school b)))"

text \<open>
  \<open>Array.prototype.sort\<close> with a comparator: the sort is stable, and an element moves
  behind another only when the comparator is positive (\<open>NaN\<close> counts as 0). Insertion
  from the right computes such an order; for a consistent comparator it is the only one.
\<close>

fun insert_by :: "('a \<Rightarrow> 'a \<Rightarrow> jsnum) \<Rightarrow> 'a \<Rightarrow> 'a list \<Rightarrow> 'a list" where
  "insert_by cmp x [] = [x]"
| "insert_by cmp x (y # ys) =
     (if positive (cmp x y) then y # insert_by cmp x ys else x # y # ys)"

definition array_sort :: "('a \<Rightarrow> 'a \<Rightarrow> jsnum) \<Rightarrow> 'a list \<Rightarrow> 'a list" where
  "array_sort cmp xs = foldr (insert_by cmp) xs []"

text \<open>
  What \<open>processResults\<close> is called with: an array of raw rows, or any other value.
\<close>

datatype payload = NotAnArray | Array "raw_result list"

text \<open>
  \<open>processResults\<close>: a value that is not an array is logged and gives the empty list.
\<close>

definition processResults ::
  "(jsstring \<Rightarrow> jsstring \<Rightarrow> int) \<Rightarrow> payload \<Rightarrow> jsval \<Rightarrow> result list" where
  "processResults lc rawResults competitionId =
     (case rawResults of
        NotAnArray \<Rightarrow> []
      | Array rows \<Rightarrow>
          array_sort (compareResults lc)
            (map (\<lambda>r. normalizeResult r competitionId) (filter validateResult rows)))"

text \<open>
  A collation by code units, to stand for \<open>localeCompare\<close> in closed examples.
\<close>

fun codeUnitCompare :: "jsstring \<Rightarrow> jsstring \<Rightarrow> int" where
  "codeUnitCompare [] [] = 0"
| "codeUnitCompare [] (y # ys) = - 1"
| "codeUnitCompare (x # xs) [] = 1"
| "codeUnitCompare (x # xs) (y # ys) =
     (if x < y then - 1 else if y < x then 1 else codeUnitCompare xs ys)"

text \<open>
  The retention condition in words. A value holds a name when it is present (neither
  \<open>null\<close> nor absent) and its text, trimmed, is not empty; \<open>named_in_either\<close> is
  the reading that looks at the English and at the Thai property alike.
\<close>

definition holds_name :: "jsval \<Rightarrow> bool" where
  "holds_name v = (\<not> nullish v \<and> trim (String v) \<noteq> [])"

definition named_in_either :: "raw_result \<Rightarrow> bool" where
  "named_in_either r =
     (holds_name (rr_school r) \<or> holds_name (rr_school_th r)
      \<or> holds_name (rr_award r) \<or> holds_name (rr_award_th r))"

text \<open>
  The narrower reading: the English property is the one that counts, and the Thai one
  only when the English one is \<open>null\<close> or absent; the value is non-blank when it is a
  string with a character that is not white space, a number other than 0, or
  \<open>true\<close>.
\<close>

definition preferred :: "jsval \<Rightarrow> jsval \<Rightarrow> jsval" where
  "preferred english thai =
     (case english of JUndefined \<Rightarrow> thai | JNull \<Rightarrow> thai | _ \<Rightarrow> english)"

fun non_blank :: "jsval \<Rightarrow> bool" where
  "non_blank (JStr s) = list_ex (\<lambda>c. \<not> is_space c) s"
| "non_blank (JNum n) = (n \<noteq> 0)"
| "non_blank (JBool b) = b"
| "non_blank JNull = False"
| "non_blank JUndefined = False"

definition has_school_or_award :: "raw_result \<Rightarrow> bool" where
  "has_school_or_award r =
     (non_blank (preferred (rr_school r) (rr_school_th r))
      \<or> non_blank (preferred (rr_award r) (rr_award_th r)))"

text \<open>A row with no property at all, to build example rows from.\<close>

definition empty_row :: raw_result where
  "empty_row =
     \<lparr>rr_school = JUndefined, rr_school_th = JUndefined, rr_award = JUndefined,
      rr_award_th = JUndefined, rr_level = JUndefined, rr_level_th = JUndefined,
      rr_type = JUndefined, rr_type_th = JUndefined, rr_rank_th = JUndefined,
      rr_rank = JUndefined, rr_cert_th1 = JUndefined, rr_cert_th2 = JUndefined,
      rr_certificate_url = JUndefined, rr_certificateUrl = JUndefined,
      rr_participants = JUndefined, rr_coach = JUndefined, rr_project_title = JUndefined,
      rr_notes = JUndefined\<rparr>"

text \<open>A normalized result with the given rank, award and school, for examples.\<close>

definition example_result :: "int option \<Rightarrow> jsstring \<Rightarrow> jsstring \<Rightarrow> result" where
  "example_result rank award school =
     \<lparr>r_competitionId = JNull, r_rank = rank, r_level = [], r_type = [], r_award = award,
      r_school = school, r_participants = js ''-'', r_coach = js ''-'', r_certificateUrl = [],
      r_projectTitle = [], r_notes = []\<rparr>"

text \<open>Four valid rows whose parsed ranks are 3, null, 1, null.\<close>

definition example_rows :: "raw_result list" where
  "example_rows =
     [empty_row\<lparr>rr_school := JStr (js ''A''), rr_rank := JNum 3\<rparr>,
      empty_row\<lparr>rr_school := JStr (js ''B''), rr_award := JStr NAME_HONORABLE\<rparr>,
      empty_row\<lparr>rr_school := JStr (js ''C''), rr_rank := JStr (js ''1'')\<rparr>,
      empty_row\<lparr>rr_school := JStr (js ''D''), rr_award := JStr NAME_CHAMPION\<rparr>]"

section \<open>The competition manager\<close>

text \<open>The fields of \<open>CompetitionManager\<close> (without its data service).\<close>

record manager =
  cm_science :: "competition list"
  cm_gem :: "competition list"
  cm_all :: "competition list"
  cm_results :: "(jsval, result list) jsmap"
  cm_isLoading :: bool
  cm_errors_science :: error_slot
  cm_errors_gem :: error_slot
  cm_isInitialized :: bool

definition new_manager :: manager where
  "new_manager =
     \<lparr>cm_science = [], cm_gem = [], cm_all = [], cm_results = [], cm_isLoading = False,
      cm_errors_science = SlotNull, cm_errors_gem = SlotNull, cm_isInitialized = False\<rparr>"

definition GLOBAL_CACHE_NOT_READY :: jsstring where
  "GLOBAL_CACHE_NOT_READY = js ''Global cache is not ready''"

text \<open>\<open>loadFromGlobalCache\<close>; \<open>Inl\<close> is the thrown error.\<close>

definition loadFromGlobalCache ::
  "(raw_competition, 'r) global_cache \<Rightarrow> manager \<Rightarrow> error + manager" where
  "loadFromGlobalCache g m =
     (case competitions g of
        None \<Rightarrow> Inl (Error GLOBAL_CACHE_NOT_READY)
      | Some cat \<Rightarrow>
          if \<not> isLoaded g then Inl (Error GLOBAL_CACHE_NOT_READY)
          else
            let sci = processCompetitions (science cat) (js ''science'');
                gm = processCompetitions (gem cat) (js ''gem'')
            in Inr (m\<lparr>cm_science := sci, cm_gem := gm, cm_all := sci @ gm,
                      cm_errors_science := errors_science cat,
                      cm_errors_gem := errors_gem cat\<rparr>))"

text \<open>
  \<open>loadAllCompetitions\<close>, given what \<open>dataService.fetchAllCompetitions()\<close> settled
  with; a rejection is rethrown as \<open>CONFIG.ERRORS.API_ERROR\<close>.
\<close>

definition loadAllCompetitions ::
  "manager \<Rightarrow> error + raw_competition catalogue \<Rightarrow> error + manager" where
  "loadAllCompetitions m fetched =
     (case fetched of
        Inl e \<Rightarrow> Inl (Error ERRORS_API_ERROR)
      | Inr result \<Rightarrow>
          let sci = processCompetitions (science result) (js ''science'');
              gm = processCompetitions (gem result) (js ''gem'')
          in Inr (m\<lparr>cm_science := sci, cm_gem := gm, cm_all := sci @ gm,
                    cm_errors_science := errors_science result,
                    cm_errors_gem := errors_gem result\<rparr>))"

text \<open>The read accessors, on the values of the arrays.\<close>

definition getAllCompetitions :: "manager \<Rightarrow> competition list" where
  "getAllCompetitions m = cm_all m"

text \<open>
  \<open>getCompetitionsByCategory\<close>: the lookup \<open>this.competitions[normalizedCategory]\<close>
  finds the own properties \<open>science\<close>, \<open>gem\<close> and \<open>all\<close>; a category naming a member
  of \<open>Object.prototype\<close> is outside the model.
\<close>

definition getCompetitionsByCategory :: "manager \<Rightarrow> jsstring \<Rightarrow> competition list" where
  "getCompetitionsByCategory m category =
     (if category = [] then []
      else
        let normalizedCategory = trim (toLowerCase category)
        in if normalizedCategory = js ''academic'' then cm_gem m
           else if normalizedCategory = js ''science'' then cm_science m
           else if normalizedCategory = js ''gem'' then cm_gem m
           else if normalizedCategory = js ''all'' then cm_all m
           else [])"

definition getCompetitionById :: "manager \<Rightarrow> jsval \<Rightarrow> competition option" where
  "getCompetitionById m competitionId =
     (if \<not> truthy competitionId then None
      else
        let normalizedId = trim (String competitionId)
        in find (\<lambda>c. c_id c = normalizedId) (cm_all m))"

record grouped =
  g_science :: "competition list"
  g_gem :: "competition list"
  g_academic :: "competition list"

definition getCompetitionsGrouped :: "manager \<Rightarrow> grouped" where
  "getCompetitionsGrouped m = \<lparr>g_science = cm_science m, g_gem = cm_gem m, g_academic = cm_gem m\<rparr>"

text \<open>
  A normalized competition \<open>c\<close> comes from a record of the catalogue other than \<open>r\<close>
  that has its id and its name.
\<close>

definition from_valid_record ::
  "raw_competition catalogue \<Rightarrow> raw_competition \<Rightarrow> competition \<Rightarrow> bool" where
  "from_valid_record cat r c \<longleftrightarrow>
     (\<exists>r' \<in> set (science cat) \<union> set (gem cat).
        r' \<noteq> r \<and> field_present (raw_id r') \<and> field_present (raw_name r') \<and>
        (\<exists>i. c = normalizeCompetition r' i (js ''science'') \<or>
             c = normalizeCompetition r' i (js ''gem'')))"

text \<open>Example records: a competition with only an id and a name, and a catalogue.\<close>

definition example_competition :: "jsval \<Rightarrow> jsval \<Rightarrow> raw_competition" where
  "example_competition i n =
     \<lparr>raw_id = i, raw_name = n, raw_category = JUndefined, raw_level = JUndefined,
      raw_status = JUndefined, raw_description = JUndefined, raw_participantCount = JUndefined,
      raw_icon = JUndefined, raw_date = JUndefined\<rparr>"

definition example_catalogue :: "raw_competition catalogue" where
  "example_catalogue =
     \<lparr>science = [example_competition (JStr (js ''rov'')) (JStr (js ''ROV'')),
                 example_competition (JStr (js ''x'')) (JStr [])],
      gem = [example_competition JNull (JStr (js ''Essay''))],
      errors_science = SlotNull, errors_gem = SlotNull\<rparr>"

section \<open>Durable storage\<close>

text \<open>
  What \<open>JSON.stringify\<close> followed by \<open>JSON.parse\<close> makes of an error slot and of a
  catalogue: an \<open>Error\<close> object has no enumerable property and becomes \<open>{}\<close>. The raw
  records are JSON data and come back as they were.
\<close>

fun json_slot :: "error_slot \<Rightarrow> error_slot" where
  "json_slot SlotNull = SlotNull"
| "json_slot (SlotError e) = SlotEmptyObject"
| "json_slot SlotEmptyObject = SlotEmptyObject"

definition json_catalogue :: "'c catalogue \<Rightarrow> 'c catalogue" where
  "json_catalogue c =
     c\<lparr>errors_science := json_slot (errors_science c), errors_gem := json_slot (errors_gem c)\<rparr>"

text \<open>
  The own properties of an object are listed (by \<open>JSON.stringify\<close> and by
  \<open>Object.entries\<close>) with the array indices first, in ascending order, and the
  other names after them in the order of their creation. An array index is the decimal
  text, without a leading zero, of an integer from 0 to \<open>2^32 - 2\<close>.
\<close>

definition array_index :: "jsstring \<Rightarrow> nat option" where
  "array_index s =
     (if s \<noteq> [] \<and> list_all (\<lambda>c. 48 \<le> c \<and> c \<le> 57) s \<and> (s = [48] \<or> hd s \<noteq> 48)
         \<and> digits_value 10 s < 2 ^ 32 - 1
      then Some (digits_value 10 s) else None)"

definition index_or_zero :: "jsstring \<Rightarrow> nat" where
  "index_or_zero s = (case array_index s of None \<Rightarrow> 0 | Some i \<Rightarrow> i)"

definition own_property_order :: "(jsstring, 'v) jsmap \<Rightarrow> (jsstring, 'v) jsmap" where
  "own_property_order obj =
     sort_key (\<lambda>p. index_or_zero (fst p)) (filter (\<lambda>p. array_index (fst p) \<noteq> None) obj)
     @ filter (\<lambda>p. array_index (fst p) = None) obj"

text \<open>
  \<open>Object.fromEntries(map)\<close>: each key becomes a property name, its string; a later
  entry with the same name replaces the value of the earlier one. The object is
  represented by the list of its properties in their order. \<open>Object.entries\<close> lists
  the properties, and \<open>new Map\<close> of them has string keys.
\<close>

definition fromEntries :: "(jsval, 'v) jsmap \<Rightarrow> (jsstring, 'v) jsmap" where
  "fromEntries m =
     own_property_order (fold (\<lambda>(k, v) obj. AList.update (String k) v obj) m [])"

definition map_of_entries :: "(jsstring, 'v) jsmap \<Rightarrow> (jsval, 'v) jsmap" where
  "map_of_entries obj = map (\<lambda>(k, v). (JStr k, v)) obj"

text \<open>
  The object \<open>cacheData\<close> as \<open>JSON.parse\<close> returns it from the persisted text.
\<close>

record ('c, 'r) cache_doc =
  doc_competitions :: "'c catalogue option"
  doc_results :: "(jsstring, 'r list) jsmap"
  doc_lastUpdated :: "int option"
  doc_version :: jsstring

text \<open>
  A stored text is modelled by what \<open>JSON.parse\<close> makes of it: a cache document, or
  anything else (a text that does not parse, or parses to something without the
  document's properties), on which reading fails.
\<close>

datatype ('c, 'r) stored_text = NotADocument | Json "('c, 'r) cache_doc"

text \<open>
  \<open>localStorage\<close>: the items under \<open>CONFIG.CACHE.PERSIST_KEY\<close> and
  \<open>CONFIG.CACHE.VERSION_KEY\<close>, and whether the storage can be used at all;
  \<open>getItem\<close> and \<open>setItem\<close> throw when it cannot (storage disabled or full).
\<close>

record ('c, 'r) local_storage =
  persist_item :: "('c, 'r) stored_text option"
  version_item :: "jsstring option"
  available :: bool

text \<open>
  \<open>saveToLocalStorage\<close>: a thrown error is caught and logged, the storage stays as
  it was.
\<close>

definition saveToLocalStorage ::
  "('c, 'r) global_cache \<Rightarrow> ('c, 'r) local_storage \<Rightarrow> ('c, 'r) local_storage" where
  "saveToLocalStorage g ls =
     (let cacheData =
            \<lparr>doc_competitions = map_option json_catalogue (competitions g),
             doc_results = fromEntries (results g),
             doc_lastUpdated = lastUpdated g,
             doc_version = APP_VERSION\<rparr>
      in if available ls
         then ls\<lparr>persist_item := Some (Json cacheData), version_item := Some APP_VERSION\<rparr>
         else ls)"

text \<open>
  \<open>loadFromLocalStorage\<close> at clock reading \<open>now\<close>: whether it succeeded, and the
  global cache afterwards.
\<close>

definition loadFromLocalStorage ::
  "int \<Rightarrow> ('c, 'r) global_cache \<Rightarrow> ('c, 'r) local_storage \<Rightarrow> bool \<times> ('c, 'r) global_cache" where
  "loadFromLocalStorage now g ls =
     (if \<not> available ls then (False, g)
      else
        case persist_item ls of
          None \<Rightarrow> (False, g)
        | Some cached \<Rightarrow>
            if version_item ls \<noteq> Some APP_VERSION then (False, g)
            else
              case cached of
                NotADocument \<Rightarrow> (False, g)
              | Json doc \<Rightarrow>
                  (case doc_lastUpdated doc of
                     None \<Rightarrow> (False, g)
                   | Some t \<Rightarrow>
                       if t = 0 \<or> now - t > CACHE_TIMEOUT then (False, g)
                       else
                         (True,
                          g\<lparr>competitions := doc_competitions doc,
                            results := map_of_entries (doc_results doc),
                            lastUpdated := doc_lastUpdated doc,
                            isLoaded := True\<rparr>)))"

text \<open>\<open>isCacheReady\<close>.\<close>

definition isCacheReady :: "int \<Rightarrow> ('c, 'r) global_cache \<Rightarrow> bool" where
  "isCacheReady now g \<longleftrightarrow> isLoaded g \<and> isCacheValid now g"

text \<open>Whether a \<open>Map\<close> key is a string.\<close>

fun is_string :: "jsval \<Rightarrow> bool" where
  "is_string (JStr s) = True"
| "is_string _ = False"

text \<open>
  The order in which a restored results map lists the entries of the persisted one: the
  entries whose id reads as an array index first, in ascending order of the index, then
  the other entries in their original order.
\<close>

definition is_index_key :: "jsval \<Rightarrow> bool" where
  "is_index_key k = (array_index (String k) \<noteq> None)"

definition restored_order :: "(jsval, 'v) jsmap \<Rightarrow> (jsval, 'v) jsmap" where
  "restored_order m =
     sort_key (\<lambda>p. index_or_zero (String (fst p))) (filter (\<lambda>p. is_index_key (fst p)) m)
     @ filter (\<lambda>p. \<not> is_index_key (fst p)) m"

text \<open>
  Examples: a snapshot taken after the science fetch failed and the gem fetch gave one
  competition, an empty storage, and the initial global cache.
\<close>

definition example_snapshot :: "(raw_competition, raw_result) global_cache" where
  "example_snapshot =
     \<lparr>competitions =
        Some \<lparr>science = [], gem = [example_competition (JStr (js ''essay'')) (JStr (js ''Essay''))],
              errors_science = SlotError (Error ERRORS_SCIENCE_LOAD_FAILED),
              errors_gem = SlotNull\<rparr>,
      results = [(JStr (js ''essay''), [empty_row\<lparr>rr_school := JStr (js ''S'')\<rparr>])],
      lastUpdated = Some 1700000000000,
      isLoaded = True\<rparr>"

definition empty_storage :: "(raw_competition, raw_result) local_storage" where
  "empty_storage = \<lparr>persist_item = None, version_item = None, available = True\<rparr>"

definition initial_cache :: "(raw_competition, raw_result) global_cache" where
  "initial_cache = \<lparr>competitions = None, results = [], lastUpdated = None, isLoaded = False\<rparr>"

section \<open>The data service and the bulk preload\<close>

text \<open>
  The two endpoints, the JSONP requests the service issues, and the network: the event
  each request ends with. The list of requests issued so far is kept in the state, to
  state which calls reach the network.
\<close>

datatype endpoint = ScienceUrl | GemUrl

datatype request = GetCompetitions endpoint | GetResults endpoint jsval

record network =
  competitions_event :: "endpoint \<Rightarrow> raw_competition jsonp_event"
  results_event :: "endpoint \<Rightarrow> jsval \<Rightarrow> raw_result jsonp_event"

text \<open>
  The fields of \<open>DataService\<close> that change: the memo \<open>this.cache\<close> (key to data and
  timestamp) and the \<open>isPreloading\<close> flag.
\<close>

record data_service =
  ds_cache :: "(jsstring, raw_result list \<times> int) jsmap"
  isPreloading :: bool

text \<open>
  The whole state: \<open>GLOBAL_CACHE\<close>, \<open>localStorage\<close>, the data service, the manager and
  the requests issued.
\<close>

record world =
  w_cache :: "(raw_competition, raw_result) global_cache"
  w_storage :: "(raw_competition, raw_result) local_storage"
  w_service :: data_service
  w_manager :: manager
  w_requests :: "request list"

definition getApiUrl :: "jsval \<Rightarrow> endpoint" where
  "getApiUrl category =
     (if category = JStr (js ''science'') then ScienceUrl
      else if category = JStr (js ''gem'') \<or> category = JStr (js ''academic'') then GemUrl
      else ScienceUrl)"

text \<open>
  \<open>getFromCache\<close> and \<open>setCache\<close> at clock reading \<open>now\<close>. A miss or an expired entry
  deletes the key.
\<close>

definition getFromCache ::
  "int \<Rightarrow> jsstring \<Rightarrow> data_service \<Rightarrow> raw_result list option \<times> data_service" where
  "getFromCache now key s =
     (case map_get (ds_cache s) key of
        None \<Rightarrow> (None, s\<lparr>ds_cache := map_delete key (ds_cache s)\<rparr>)
      | Some (cached, timestamp) \<Rightarrow>
          if now - timestamp < CACHE_TIMEOUT then (Some cached, s)
          else (None, s\<lparr>ds_cache := map_delete key (ds_cache s)\<rparr>))"

definition setCache :: "int \<Rightarrow> jsstring \<Rightarrow> raw_result list \<Rightarrow> data_service \<Rightarrow> data_service" where
  "setCache now key d s = s\<lparr>ds_cache := map_set key (d, now) (ds_cache s)\<rparr>"

text \<open>The message of the error \<open>fetchResultsInternal\<close> throws, around the id.\<close>

definition RESULTS_FAILED_PREFIX :: jsstring where
  "RESULTS_FAILED_PREFIX =
     [0xe44, 0xe21, 0xe48, 0xe2a, 0xe32, 0xe21, 0xe32, 0xe23, 0xe16, 0xe42, 0xe2b, 0xe25,
      0xe14, 0xe1c, 0xe25, 0xe01, 0xe32, 0xe23, 0xe41, 0xe02, 0xe48, 0xe07, 0xe02, 0xe31,
      0xe19, 0x20]"

definition RESULTS_FAILED_INFIX :: jsstring where
  "RESULTS_FAILED_INFIX = [0x20, 0xe44, 0xe14, 0xe49, 0x3a, 0x20]"

definition results_failed :: "jsval \<Rightarrow> error \<Rightarrow> error" where
  "results_failed competitionId e =
     Error (RESULTS_FAILED_PREFIX @ String competitionId @ RESULTS_FAILED_INFIX @ message e)"

definition cacheKey :: "jsval \<Rightarrow> jsstring" where
  "cacheKey competitionId = js ''results_'' @ String competitionId"

text \<open>
  \<open>fetchResultsInternal\<close>: the memo first (a cached array is truthy, also when
  empty), else one JSONP request to the category's endpoint.
\<close>

definition fetchResultsInternal ::
  "int \<Rightarrow> network \<Rightarrow> jsval \<Rightarrow> jsval \<Rightarrow> world \<Rightarrow> (error + raw_result list) \<times> world" where
  "fetchResultsInternal now net competitionId category w =
     (case getFromCache now (cacheKey competitionId) (w_service w) of
        (Some cached, s) \<Rightarrow> (Inr cached, w\<lparr>w_service := s\<rparr>)
      | (None, s) \<Rightarrow>
          let apiUrl = getApiUrl category;
              w1 = w\<lparr>w_service := s, w_requests := w_requests w @ [GetResults apiUrl competitionId]\<rparr>
          in case simpleJSONP (results_event net apiUrl competitionId) of
               Inr res \<Rightarrow> (Inr res, w1\<lparr>w_service := setCache now (cacheKey competitionId) res s\<rparr>)
             | Inl e \<Rightarrow> (Inl (results_failed competitionId e), w1))"

text \<open>
  \<open>DataService.fetchAllCompetitions\<close> in the state: one request per category, then
  the settled outcomes.
\<close>

definition fetchAllCompetitions_io ::
  "network \<Rightarrow> world \<Rightarrow> (error + raw_competition catalogue) \<times> world" where
  "fetchAllCompetitions_io net w =
     (fetchAllCompetitions
        (fetchScienceCompetitions (competitions_event net ScienceUrl))
        (fetchGemCompetitions (competitions_event net GemUrl)),
      w\<lparr>w_requests := w_requests w @ [GetCompetitions ScienceUrl, GetCompetitions GemUrl]\<rparr>)"

text \<open>
  One element of \<open>resultsSummary\<close>, and the callback of
  \<open>allCompetitions.map(async (comp, index) => ...)\<close>: it stores the fetched rows, or
  \<open>[]\<close> when the fetch failed, under \<open>comp.id\<close>, and returns the summary element.
\<close>

record summary_entry =
  s_id :: jsval
  s_success :: bool
  s_error :: "jsstring option"

definition loadResultsFor ::
  "int \<Rightarrow> network \<Rightarrow> raw_competition \<Rightarrow>
   summary_entry list \<times> (jsval, raw_result list) jsmap \<times> world \<Rightarrow>
   summary_entry list \<times> (jsval, raw_result list) jsmap \<times> world" where
  "loadResultsFor now net c acc =
     (case acc of (entries, allResults, w) \<Rightarrow>
        case fetchResultsInternal now net (raw_id c) (raw_category c) w of
          (Inr res, w') \<Rightarrow>
            (entries @ [\<lparr>s_id = raw_id c, s_success = True, s_error = None\<rparr>],
             map_set (raw_id c) res allResults, w')
        | (Inl e, w') \<Rightarrow>
            (entries @ [\<lparr>s_id = raw_id c, s_success = False, s_error = Some (message e)\<rparr>],
             map_set (raw_id c) [] allResults, w'))"

text \<open>
  \<open>Promise.all(resultPromises)\<close>: the callbacks are run one after the other in index
  order (the delay of \<open>Utils.sleep\<close> has no effect on the state). The summary is in
  index order whatever the order of completion.
\<close>

definition resultPromises ::
  "int \<Rightarrow> network \<Rightarrow> raw_competition list \<Rightarrow> world \<Rightarrow>
   summary_entry list \<times> (jsval, raw_result list) jsmap \<times> world" where
  "resultPromises now net allCompetitions w =
     fold (loadResultsFor now net) allCompetitions ([], [], w)"

record preload_summary =
  sm_total :: nat
  sm_loaded :: nat
  sm_failed :: nat

text \<open>
  What \<open>DataService.preloadAllData\<close> resolves with: \<open>{success: false, message}\<close>, or
  \<open>{success: true, competitions, results, summary}\<close>.
\<close>

datatype preload_result =
  AlreadyPreloading
| Preloaded "raw_competition catalogue" "(jsval, raw_result list) jsmap" preload_summary

definition NO_COMPETITIONS :: jsstring where
  "NO_COMPETITIONS = js ''No competitions data loaded''"

definition set_preloading :: "bool \<Rightarrow> world \<Rightarrow> world" where
  "set_preloading b w = w\<lparr>w_service := (w_service w)\<lparr>isPreloading := b\<rparr>\<rparr>"

text \<open>
  The body of \<open>DataService.preloadAllData\<close> at clock reading \<open>now\<close> (one reading of
  the clock per call); \<open>Inl\<close> is the rethrown error, and \<open>finally\<close> resets the flag.
  The second component is the local \<open>resultsSummary\<close> (empty when the call does not
  get that far): the source counts and logs it, and it is kept here to state what it
  holds.
\<close>

definition preloadAllData_run ::
  "int \<Rightarrow> network \<Rightarrow> world \<Rightarrow> (error + preload_result) \<times> summary_entry list \<times> world" where
  "preloadAllData_run now net w =
     (if isPreloading (w_service w) then (Inr AlreadyPreloading, [], w)
      else
        case fetchAllCompetitions_io net (set_preloading True w) of
          (Inl e, w2) \<Rightarrow> (Inl e, [], set_preloading False w2)
        | (Inr fetched, w2) \<Rightarrow>
            if science fetched = [] \<and> gem fetched = []
            then (Inl (Error NO_COMPETITIONS), [], set_preloading False w2)
            else
              let allCompetitions = science fetched @ gem fetched
              in case resultPromises now net allCompetitions w2 of
                   (resultsSummary, allResults, w3) \<Rightarrow>
                     let successCount = length (filter s_success resultsSummary);
                         g = \<lparr>competitions = Some fetched, results = allResults,
                              lastUpdated = Some now, isLoaded = True\<rparr>;
                         w4 = w3\<lparr>w_cache := g, w_storage := saveToLocalStorage g (w_storage w3)\<rparr>
                     in (Inr (Preloaded fetched allResults
                                \<lparr>sm_total = length allCompetitions,
                                 sm_loaded = successCount,
                                 sm_failed = length allCompetitions - successCount\<rparr>),
                         resultsSummary,
                         set_preloading False w4))"

text \<open>\<open>DataService.preloadAllData\<close>: what the call resolves with, and the state.\<close>

definition DataService_preloadAllData ::
  "int \<Rightarrow> network \<Rightarrow> world \<Rightarrow> (error + preload_result) \<times> world" where
  "DataService_preloadAllData now net w =
     (case preloadAllData_run now net w of (r, resultsSummary, w') \<Rightarrow> (r, w'))"




section \<open>Initialization of the manager\<close>

text \<open>
  The fallback of \<open>CompetitionManager.preloadAllData\<close>: fetch the catalogues again and
  load the competitions only.
\<close>

definition loadAllCompetitions_io :: "network \<Rightarrow> world \<Rightarrow> error option \<times> world" where
  "loadAllCompetitions_io net w =
     (case fetchAllCompetitions_io net w of
        (fetched, w1) \<Rightarrow>
          case loadAllCompetitions (w_manager w1) fetched of
            Inr m \<Rightarrow> (None, w1\<lparr>w_manager := m\<rparr>)
          | Inl e \<Rightarrow> (Some e, w1))"

text \<open>
  \<open>CompetitionManager.preloadAllData\<close>: every error of the \<open>try\<close> block, also the
  \<open>Pre-load failed\<close> it throws itself, goes to the fallback.
\<close>

definition CompetitionManager_preloadAllData ::
  "int \<Rightarrow> network \<Rightarrow> world \<Rightarrow> error option \<times> world" where
  "CompetitionManager_preloadAllData now net w =
     (case DataService_preloadAllData now net w of
        (Inr (Preloaded fetched allResults summary), w1) \<Rightarrow>
          (case loadFromGlobalCache (w_cache w1) (w_manager w1) of
             Inr m \<Rightarrow> (None, w1\<lparr>w_manager := m\<rparr>)
           | Inl e \<Rightarrow> loadAllCompetitions_io net w1)
      | (Inr AlreadyPreloading, w1) \<Rightarrow> loadAllCompetitions_io net w1
      | (Inl e, w1) \<Rightarrow> loadAllCompetitions_io net w1)"

definition finish_loading :: "bool \<Rightarrow> world \<Rightarrow> world" where
  "finish_loading ok w =
     w\<lparr>w_manager := (w_manager w)\<lparr>cm_isInitialized := (ok \<or> cm_isInitialized (w_manager w)), cm_isLoading := False\<rparr>\<rparr>"

text \<open>
  \<open>CompetitionManager.initialize\<close> at clock reading \<open>now\<close>: the error it throws, if
  any, and the state afterwards. \<open>finish_loading\<close> is the assignment
  \<open>isInitialized = true\<close> of a successful branch followed by the \<open>finally\<close> block.
\<close>

definition initialize :: "int \<Rightarrow> network \<Rightarrow> world \<Rightarrow> error option \<times> world" where
  "initialize now net w =
     (let w0 = w\<lparr>w_manager := (w_manager w)\<lparr>cm_isLoading := True\<rparr>\<rparr>
      in if isCacheReady now (w_cache w0) then
           (case loadFromGlobalCache (w_cache w0) (w_manager w0) of
              Inr m \<Rightarrow> (None, finish_loading True (w0\<lparr>w_manager := m\<rparr>))
            | Inl e \<Rightarrow> (Some e, finish_loading False w0))
         else
           case loadFromLocalStorage now (w_cache w0) (w_storage w0) of
             (True, g) \<Rightarrow>
               (case loadFromGlobalCache g (w_manager w0) of
                  Inr m \<Rightarrow> (None, finish_loading True (w0\<lparr>w_cache := g, w_manager := m\<rparr>))
                | Inl e \<Rightarrow> (Some e, finish_loading False (w0\<lparr>w_cache := g\<rparr>)))
           | (False, g) \<Rightarrow>
               (case CompetitionManager_preloadAllData now net (w0\<lparr>w_cache := g\<rparr>) of
                  (None, w1) \<Rightarrow> (None, finish_loading True w1)
                | (Some e, w1) \<Rightarrow> (Some e, finish_loading False w1)))"

text \<open>A new page: initial global cache, empty storage, a new manager and service.\<close>

definition new_world :: world where
  "new_world =
     \<lparr>w_cache = initial_cache, w_storage = empty_storage,
      w_service = \<lparr>ds_cache = [], isPreloading = False\<rparr>, w_manager = new_manager, w_requests = []\<rparr>"

text \<open>The keys of the service's memo.\<close>

definition memo_keys :: "world \<Rightarrow> jsstring set" where
  "memo_keys w = fst ` set (ds_cache (w_service w))"

text \<open>
  An example: each category has one competition; the result request for \<open>rov\<close> times
  out, every other one succeeds.
\<close>

definition example_fetched :: "raw_competition catalogue" where
  "example_fetched =
     \<lparr>science = [example_competition (JStr (js ''rov'')) (JStr (js ''ROV''))],
      gem = [example_competition (JStr (js ''essay'')) (JStr (js ''Essay''))],
      errors_science = SlotNull, errors_gem = SlotNull\<rparr>"

definition example_network :: network where
  "example_network =
     \<lparr>competitions_event =
        (\<lambda>url. Callback (Some \<lparr>res_success = True,
                                 res_data = Some (case url of ScienceUrl \<Rightarrow> science example_fetched
                                                   | GemUrl \<Rightarrow> gem example_fetched),
                                 res_error = None\<rparr>)),
      results_event =
        (\<lambda>url competitionId.
           if competitionId = JStr (js ''rov'') then Timeout
           else Callback (Some \<lparr>res_success = True,
                                 res_data = Some [empty_row\<lparr>rr_school := JStr (js ''S'')\<rparr>],
                                 res_error = None\<rparr>))\<rparr>"


text \<open>
  Two more networks: one whose category endpoints answer with empty arrays, and one
  where every request times out.
\<close>

definition empty_network :: network where
  "empty_network =
     \<lparr>competitions_event =
        (\<lambda>url. Callback (Some \<lparr>res_success = True, res_data = Some [], res_error = None\<rparr>)),
      results_event = (\<lambda>url competitionId. Timeout)\<rparr>"

definition dead_network :: network where
  "dead_network =
     \<lparr>competitions_event = (\<lambda>url. Timeout), results_event = (\<lambda>url competitionId. Timeout)\<rparr>"

section \<open>The accessors on a heap of arrays\<close>

text \<open>
  To state that the accessors return fresh copies, arrays are objects in a heap: an
  address is an index into the list of all arrays allocated so far, and the manager
  holds the addresses of its three collections. (The elements are values here; the
  copies of the source are shallow, which matters only to a caller that changes a
  competition object itself.)
\<close>

type_synonym heap = "competition list list"

record manager_refs =
  ref_science :: nat
  ref_gem :: nat
  ref_all :: nat

text \<open>A new array with the given elements: its address, and the heap with it.\<close>

definition alloc :: "competition list \<Rightarrow> heap \<Rightarrow> nat \<times> heap" where
  "alloc xs h = (length h, h @ [xs])"

text \<open>
  Any change a caller makes in place to the array at an address: \<open>push\<close>, \<open>pop\<close>,
  \<open>shift\<close>, \<open>splice\<close>, an assignment to \<open>length\<close>.
\<close>

definition mutate :: "nat \<Rightarrow> (competition list \<Rightarrow> competition list) \<Rightarrow> heap \<Rightarrow> heap" where
  "mutate a f h = (if a < length h then h[a := f (h ! a)] else h)"

text \<open>\<open>[...this.competitions.all]\<close> and the other accessors.\<close>

definition getAllCompetitions_heap :: "manager_refs \<Rightarrow> heap \<Rightarrow> nat \<times> heap" where
  "getAllCompetitions_heap refs h = alloc (h ! ref_all refs) h"

definition getCompetitionsByCategory_heap ::
  "manager_refs \<Rightarrow> jsstring \<Rightarrow> heap \<Rightarrow> nat \<times> heap" where
  "getCompetitionsByCategory_heap refs category h =
     (if category = [] then alloc [] h
      else
        let normalizedCategory = trim (toLowerCase category)
        in if normalizedCategory = js ''academic'' then alloc (h ! ref_gem refs) h
           else if normalizedCategory = js ''science'' then alloc (h ! ref_science refs) h
           else if normalizedCategory = js ''gem'' then alloc (h ! ref_gem refs) h
           else if normalizedCategory = js ''all'' then alloc (h ! ref_all refs) h
           else alloc [] h)"

record grouped_refs =
  gr_science :: nat
  gr_gem :: nat
  gr_academic :: nat

definition getCompetitionsGrouped_heap :: "manager_refs \<Rightarrow> heap \<Rightarrow> grouped_refs \<times> heap" where
  "getCompetitionsGrouped_heap refs h =
     (case alloc (h ! ref_science refs) h of
        (a1, h1) \<Rightarrow>
          case alloc (h1 ! ref_gem refs) h1 of
            (a2, h2) \<Rightarrow>
              case alloc (h2 ! ref_gem refs) h2 of
                (a3, h3) \<Rightarrow> (\<lparr>gr_science = a1, gr_gem = a2, gr_academic = a3\<rparr>, h3))"

text \<open>
  The heap represents the collections of the manager \<open>m\<close>: the three addresses are
  allocated and hold the lists of \<open>m\<close>.
\<close>

definition manager_view :: "manager_refs \<Rightarrow> heap \<Rightarrow> manager \<Rightarrow> bool" where
  "manager_view refs h m \<longleftrightarrow>
     ref_science refs < length h \<and> ref_gem refs < length h \<and> ref_all refs < length h \<and>
     h ! ref_science refs = cm_science m \<and> h ! ref_gem refs = cm_gem m \<and>
     h ! ref_all refs = cm_all m"

text \<open>An example: a heap holding the collections of a manager with one competition.\<close>

definition example_heap :: heap where
  "example_heap =
     [[normalizeCompetition (example_competition (JStr (js ''rov'')) (JStr (js ''ROV''))) 0 (js ''science'')],
      [],
      [normalizeCompetition (example_competition (JStr (js ''rov'')) (JStr (js ''ROV''))) 0 (js ''science'')]]"

definition example_refs :: manager_refs where
  "example_refs = \<lparr>ref_science = 0, ref_gem = 1, ref_all = 2\<rparr>"

definition example_manager :: manager where
  "example_manager =
     new_manager\<lparr>cm_science := example_heap ! 0, cm_gem := [], cm_all := example_heap ! 2\<rparr>"

section \<open>Facts about the result pipeline\<close>

lemma processResults_Array:
  "processResults lc (Array rows) cid =
     array_sort (compareResults lc) (map (\<lambda>r. normalizeResult r cid) (filter validateResult rows))"
  by (simp add: processResults_def)

lemma mset_insert_by: "mset (insert_by cmp x ys) = add_mset x (mset ys)"
  by (induction ys) auto

lemma mset_array_sort: "mset (array_sort cmp xs) = mset xs"
  by (induction xs) (auto simp: array_sort_def mset_insert_by)

lemma dropWhile_all:
  "(\<forall>c \<in> set (dropWhile P s). P c) \<longleftrightarrow> (\<forall>c \<in> set s. P c)"
  by (induction s) auto

lemma trim_eq_Nil_iff: "trim s = [] \<longleftrightarrow> (\<forall>c \<in> set s. is_space c)"
proof -
  have "trim s = [] \<longleftrightarrow> (\<forall>c \<in> set (rev (dropWhile is_space s)). is_space c)"
    by (simp add: trim_def dropWhile_eq_Nil_conv)
  also have "\<dots> \<longleftrightarrow> (\<forall>c \<in> set s. is_space c)"
    by (simp add: dropWhile_all)
  finally show ?thesis .
qed

lemma digits_of_digits:
  "digits_of n \<noteq> [] \<and> (\<forall>c \<in> set (digits_of n). 48 \<le> c \<and> c \<le> 57)"
proof (induction n rule: digits_of.induct)
  case (1 n)
  show ?case
  proof (cases "n < 10")
    case True
    then show ?thesis by (subst digits_of.simps, subst (2) digits_of.simps) simp
  next
    case False
    with 1 have ih: "\<forall>c \<in> set (digits_of (n div 10)). 48 \<le> c \<and> c \<le> 57" by simp
    have m: "n mod 10 \<le> 9" by simp
    have e: "digits_of n = digits_of (n div 10) @ [48 + n mod 10]"
      using False by (subst digits_of.simps) simp
    show ?thesis unfolding e using ih m by auto
  qed
qed

lemma int_to_string_nonblank: "trim (int_to_string i) \<noteq> []"
proof -
  obtain c cs where d: "digits_of (nat \<bar>i\<bar>) = c # cs"
    using digits_of_digits[of "nat \<bar>i\<bar>"] by (cases "digits_of (nat \<bar>i\<bar>)") auto
  then have "c \<in> set (digits_of (nat \<bar>i\<bar>))" by simp
  then have "48 \<le> c \<and> c \<le> 57" using digits_of_digits[of "nat \<bar>i\<bar>"] by blast
  then have n: "\<not> is_space c" by (simp add: is_space_def)
  have "c \<in> set (int_to_string i)"
    using d by (cases "i < 0") (simp_all add: int_to_string_def abs_if)
  with n show ?thesis by (auto simp: trim_eq_Nil_iff)
qed

lemma truthy_text_iff: "(truthy v \<and> trim (String v) \<noteq> []) = non_blank v"
proof (cases v)
  case (JStr s)
  then show ?thesis by (auto simp: trim_eq_Nil_iff list_ex_iff)
next
  case (JNum n)
  then show ?thesis by (simp add: int_to_string_nonblank)
next
  case (JBool b)
  then show ?thesis by (simp add: trim_def is_space_def js_def)
qed simp_all

lemma coalesce_preferred: "coalesce a b = preferred a b"
  by (cases a) (simp_all add: coalesce_def preferred_def)

lemma validateResult_iff: "validateResult r = has_school_or_award r"
  by (simp add: validateResult_def has_school_or_award_def Let_def coalesce_preferred
      truthy_text_iff)

lemma NAME_CHAMPION_nonblank: "trim NAME_CHAMPION = NAME_CHAMPION" "NAME_CHAMPION \<noteq> []"
  by (simp_all add: NAME_CHAMPION_def trim_def is_space_def)

lemma compareResults_ranked:
  "r_rank a = Some i \<Longrightarrow> r_rank b = Some j \<Longrightarrow> i \<noteq> j \<Longrightarrow>
     compareResults lc a b = Finite (i - j)"
  by (simp add: compareResults_def toNum_def)

lemma compareResults_ranked_null:
  "r_rank a = Some i \<Longrightarrow> r_rank b = None \<Longrightarrow> compareResults lc a b = NegInfinity"
  by (simp add: compareResults_def toNum_def)

lemma compareResults_null_ranked:
  "r_rank a = None \<Longrightarrow> r_rank b = Some j \<Longrightarrow> compareResults lc a b = PosInfinity"
  by (simp add: compareResults_def toNum_def)

lemma compareResults_tied:
  "r_rank a = r_rank b \<Longrightarrow>
   compareResults lc a b =
     (case (getAwardConfig (r_award a), getAwardConfig (r_award b)) of
        (Some A, Some B) \<Rightarrow>
          if lookup_rank A \<noteq> lookup_rank B
          then rank_minus (lookup_rank A) (lookup_rank B)
          else Finite (lc (r_school a) (r_school b))
      | (Some A, None) \<Rightarrow> Finite (- 1)
      | (None, Some B) \<Rightarrow> Finite 1
      | (None, None) \<Rightarrow> Finite (lc (r_school a) (r_school b)))"
  by (simp add: compareResults_def)

lemma getAwardConfig_empty: "getAwardConfig w = None \<longleftrightarrow> w = []"
  by (simp add: getAwardConfig_def)

lemma getAwardConfig_unrecognized:
  "w \<noteq> [] \<Longrightarrow> w \<notin> fst ` set awardMap \<Longrightarrow> w \<notin> set OBJECT_PROTOTYPE_MEMBERS \<Longrightarrow>
     getAwardConfig w = Some (Config PARTICIPANT)"
proof -
  assume "w \<noteq> []" and "w \<notin> fst ` set awardMap" and m: "w \<notin> set OBJECT_PROTOTYPE_MEMBERS"
  then have "map_of awardMap w = None" by (simp add: map_of_eq_None_iff)
  with \<open>w \<noteq> []\<close> m show ?thesis by (simp add: getAwardConfig_def)
qed

lemma getAwardConfig_champion: "getAwardConfig NAME_CHAMPION = Some (Config CHAMPION)"
  by (simp add: getAwardConfig_def awardMap_def NAME_CHAMPION_def)

lemma getAwardConfig_honorable: "getAwardConfig NAME_HONORABLE = Some (Config HONORABLE)"
  by (simp add: getAwardConfig_def awardMap_def NAME_HONORABLE_def NAME_CHAMPION_def
      NAME_RUNNER_UP_def)

lemma getAwardConfig_participant: "getAwardConfig NAME_PARTICIPANT = Some (Config PARTICIPANT)"
  by (simp add: getAwardConfig_def awardMap_def NAME_HONORABLE_def NAME_CHAMPION_def
      NAME_RUNNER_UP_def NAME_PARTICIPANT_def)

lemma getAwardConfig_constructor: "getAwardConfig (js ''constructor'') = Some Inherited"
  by (simp add: getAwardConfig_def awardMap_def NAME_HONORABLE_def NAME_CHAMPION_def
      NAME_RUNNER_UP_def NAME_PARTICIPANT_def OBJECT_PROTOTYPE_MEMBERS_def js_def)

lemma getAwardConfig_xyz: "getAwardConfig (js ''xyz'') = Some (Config PARTICIPANT)"
  by (simp add: getAwardConfig_def awardMap_def NAME_HONORABLE_def NAME_CHAMPION_def
      NAME_RUNNER_UP_def NAME_PARTICIPANT_def OBJECT_PROTOTYPE_MEMBERS_def js_def)

lemma getAwardConfig_Nil: "getAwardConfig [] = None"
  by (simp add: getAwardConfig_def)

lemma example_rows_normalized:
  "map (\<lambda>r. normalizeResult r JNull) example_rows =
     [example_result (Some 3) [] (js ''A''),
      example_result None NAME_HONORABLE (js ''B''),
      example_result (Some 1) [] (js ''C''),
      example_result None NAME_CHAMPION (js ''D'')]"
  by (simp add: example_rows_def empty_row_def normalizeResult_def example_result_def
      coalesce_def js_or_def text_or_dash_def text_or_empty_def parseInt_def
      parseInt_string_def trim_start_def trim_def is_space_def is_digit_def digit_value_def
      digits_value_def js_def int_to_string_def digits_of.simps NAME_HONORABLE_def
      NAME_CHAMPION_def Let_def)

lemma example_rows_valid: "\<forall>r \<in> set example_rows. validateResult r"
  by (simp add: example_rows_def empty_row_def validateResult_def coalesce_def trim_def
      is_space_def js_def)

section \<open>Facts about the competition pipeline\<close>

lemma validateCompetition_iff:
  "validateCompetition r \<longleftrightarrow> field_present (raw_id r) \<and> field_present (raw_name r)"
  by (simp add: validateCompetition_def)

lemma filter_valid_removeAll:
  "\<not> validateCompetition r \<Longrightarrow>
     filter validateCompetition (removeAll r xs) = filter validateCompetition xs"
  by (induction xs) auto

lemma processCompetitions_removeAll:
  "\<not> validateCompetition r \<Longrightarrow>
     processCompetitions (removeAll r xs) category = processCompetitions xs category"
  by (simp add: processCompetitions_def filter_valid_removeAll)

lemma processCompetitions_elem:
  assumes "c \<in> set (processCompetitions xs category)"
  shows "\<exists>r' \<in> set xs. validateCompetition r' \<and> (\<exists>i. c = normalizeCompetition r' i category)"
proof -
  from assms obtain i x where "(i, x) \<in> set (enumerate 0 (filter validateCompetition xs))"
    and c: "c = normalizeCompetition x i category"
    by (auto simp: processCompetitions_def)
  then have "x \<in> snd ` set (enumerate 0 (filter validateCompetition xs))"
    by force
  then have "x \<in> set (filter validateCompetition xs)"
    by (simp flip: set_map)
  with c show ?thesis by auto
qed

lemma loaded_all_elem:
  assumes inv: "\<not> validateCompetition r"
    and ld: "loadAllCompetitions m (Inr cat) = Inr m' \<or>
             loadFromGlobalCache (g\<lparr>competitions := Some cat\<rparr>) m = Inr m'"
    and c: "c \<in> set (cm_science m') \<union> set (cm_gem m') \<union> set (cm_all m')"
  shows "from_valid_record cat r c"
proof -
  from ld have eq: "cm_science m' = processCompetitions (science cat) (js ''science'')"
    "cm_gem m' = processCompetitions (gem cat) (js ''gem'')"
    "cm_all m' = cm_science m' @ cm_gem m'"
    by (auto simp: loadAllCompetitions_def loadFromGlobalCache_def Let_def split: if_splits)
  from c eq consider "c \<in> set (processCompetitions (science cat) (js ''science''))"
    | "c \<in> set (processCompetitions (gem cat) (js ''gem''))" by auto
  then show ?thesis
  proof cases
    case 1
    from processCompetitions_elem[OF 1] obtain r' i where "r' \<in> set (science cat)"
      "validateCompetition r'" "c = normalizeCompetition r' i (js ''science'')" by blast
    moreover from this inv have "r' \<noteq> r" by auto
    ultimately show ?thesis
      by (auto simp: from_valid_record_def validateCompetition_iff)
  next
    case 2
    from processCompetitions_elem[OF 2] obtain r' i where "r' \<in> set (gem cat)"
      "validateCompetition r'" "c = normalizeCompetition r' i (js ''gem'')" by blast
    moreover from this inv have "r' \<noteq> r" by auto
    ultimately show ?thesis
      by (auto simp: from_valid_record_def validateCompetition_iff)
  qed
qed

lemma getCompetitionsByCategory_subset:
  "set (getCompetitionsByCategory m k) \<subseteq> set (cm_science m) \<union> set (cm_gem m) \<union> set (cm_all m)"
  by (auto simp: getCompetitionsByCategory_def Let_def)

lemma getCompetitionById_elem:
  "getCompetitionById m i = Some c \<Longrightarrow> c \<in> set (cm_all m)"
  by (auto simp: getCompetitionById_def Let_def find_Some_iff split: if_splits)

section \<open>Facts about the durable copy\<close>

lemma update_fresh: "k \<notin> fst ` set al \<Longrightarrow> AList.update k v al = al @ [(k, v)]"
  by (induction al) auto

lemma fold_update_fresh:
  "distinct (map (\<lambda>(k, v). String k) m) \<Longrightarrow>
   (\<lambda>(k, v). String k) ` set m \<inter> fst ` set acc = {} \<Longrightarrow>
   fold (\<lambda>(k, v) obj. AList.update (String k) v obj) m acc =
     acc @ map (\<lambda>(k, v). (String k, v)) m"
proof (induction m arbitrary: acc)
  case Nil
  then show ?case by simp
next
  case (Cons p m)
  obtain k v where p: "p = (k, v)" by (cases p)
  from Cons.prems have fresh: "String k \<notin> fst ` set acc" by (auto simp: p)
  have step: "AList.update (String k) v acc = acc @ [(String k, v)]"
    using fresh by (rule update_fresh)
  have d: "distinct (map (\<lambda>(k, v). String k) m)" using Cons.prems(1) by simp
  have i: "(\<lambda>(k, v). String k) ` set m \<inter> fst ` set (acc @ [(String k, v)]) = {}"
    using Cons.prems by (auto simp: p)
  show ?case
    using Cons.IH[OF d i] by (simp add: p step)
qed

lemma map_insort_key:
  "(\<And>y. f y = f' (h y)) \<Longrightarrow>
     map h (insort_key f x xs) = insort_key f' (h x) (map h xs)"
  by (induction xs) simp_all

lemma map_sort_key:
  assumes "\<And>y. f y = f' (h y)"
  shows "map h (sort_key f xs) = sort_key f' (map h xs)"
  by (induction xs) (simp_all add: map_insort_key[where f' = f', OF assms])

lemma string_keys_entries:
  assumes "list_all is_string (map fst m)" and that: "set xs \<subseteq> set m"
  shows "map (\<lambda>(k, v). (JStr k, v)) (map (\<lambda>(k, v). (String k, v)) xs) = xs"
proof -
  have "map (\<lambda>(k, v). (JStr k, v)) (map (\<lambda>(k, v). (String k, v)) xs) = map (\<lambda>p. p) xs"
    unfolding map_map
  proof (rule map_cong[OF refl])
    fix p assume "p \<in> set xs"
    with that have "p \<in> set m" by blast
    then have "fst p \<in> set (map fst m)" by simp
    with assms(1) have "is_string (fst p)" by (auto simp: list_all_iff)
    then have "JStr (String (fst p)) = fst p" by (cases "fst p") auto
    then show "((\<lambda>(k, v). (JStr k, v)) \<circ> (\<lambda>(k, v). (String k, v))) p = p"
      by (cases p) simp
  qed
  then show ?thesis by simp
qed

lemma string_keys_roundtrip:
  assumes "list_all is_string (map fst m)" and "distinct (map fst m)"
  shows "map_of_entries (fromEntries m) = restored_order m"
proof -
  let ?s = "\<lambda>(k, v). (String k, v) :: jsstring \<times> 'a"
  let ?j = "\<lambda>(k, v). (JStr k, v) :: jsval \<times> 'a"
  have s: "\<And>k. k \<in> fst ` set m \<Longrightarrow> JStr (String k) = k"
  proof -
    fix k assume "k \<in> fst ` set m"
    with assms(1) have "is_string k" by (auto simp: list_all_iff)
    then show "JStr (String k) = k" by (cases k) auto
  qed
  have inj: "inj_on String (fst ` set m)"
    by (rule inj_onI) (metis s)
  have "distinct (map String (map fst m))"
    using assms(2) inj by (subst distinct_map) simp
  moreover have "(\<lambda>(k, v). String k) = (String \<circ> fst :: jsval \<times> 'a \<Rightarrow> jsstring)"
    by auto
  ultimately have d: "distinct (map (\<lambda>(k, v). String k) m)"
    by simp
  have f: "fold (\<lambda>(k, v) obj. AList.update (String k) v obj) m [] = map ?s m"
    using fold_update_fresh[OF d, of "[]"] by simp
  have p: "filter (\<lambda>p. array_index (fst p) \<noteq> None) (map ?s m) =
             map ?s (filter (\<lambda>p. is_index_key (fst p)) m)"
    by (simp add: filter_map comp_def is_index_key_def case_prod_unfold)
  have q: "filter (\<lambda>p. array_index (fst p) = None) (map ?s m) =
             map ?s (filter (\<lambda>p. \<not> is_index_key (fst p)) m)"
    by (simp add: filter_map comp_def is_index_key_def case_prod_unfold)
  have k: "sort_key (\<lambda>p. index_or_zero (fst p)) (map ?s xs) =
             map ?s (sort_key (\<lambda>p. index_or_zero (String (fst p))) xs)" for xs
    by (rule map_sort_key[symmetric]) (simp add: case_prod_unfold)
  have o: "own_property_order (map ?s m) =
      map ?s (sort_key (\<lambda>p. index_or_zero (String (fst p))) (filter (\<lambda>p. is_index_key (fst p)) m)
              @ filter (\<lambda>p. \<not> is_index_key (fst p)) m)"
    unfolding own_property_order_def p q k by simp
  have "set (restored_order m) \<subseteq> set m"
    by (auto simp: restored_order_def)
  with assms(1) have "map ?j (map ?s (restored_order m)) = restored_order m"
    by (rule string_keys_entries)
  then show ?thesis
    by (simp add: map_of_entries_def fromEntries_def f o restored_order_def)
qed

lemma mset_restored_order: "mset (restored_order m) = mset m"
  by (simp add: restored_order_def)

lemma map_of_restored_order:
  assumes "distinct (map fst m)"
  shows "map_of (restored_order m) = map_of m"
proof -
  have "mset (map fst (restored_order m)) = mset (map fst m)"
    using mset_restored_order[of m] by (metis mset_map)
  then have d: "distinct (map fst (restored_order m))"
    using assms by (metis mset_eq_imp_distinct_iff)
  have "set (restored_order m) = set m"
    using mset_restored_order[of m] by (metis set_mset_mset)
  then show ?thesis
    using d assms by (simp add: map_of_inject_set)
qed

lemma restored_order_no_index:
  "filter (\<lambda>p. is_index_key (fst p)) m = [] \<Longrightarrow> restored_order m = m"
proof -
  assume a: "filter (\<lambda>p. is_index_key (fst p)) m = []"
  then have "\<forall>p \<in> set m. \<not> is_index_key (fst p)"
    by (simp add: filter_empty_conv)
  then have "filter (\<lambda>p. \<not> is_index_key (fst p)) m = m"
    by simp
  with a show ?thesis by (simp add: restored_order_def)
qed

lemma json_slot_truthy: "slot_truthy (json_slot s) = slot_truthy s"
  by (cases s) simp_all

section \<open>Facts about the data service\<close>

lemma fetchResultsInternal_frame:
  "fetchResultsInternal now net i k w = (out, w') \<Longrightarrow>
     w_cache w' = w_cache w \<and> w_storage w' = w_storage w \<and> w_manager w' = w_manager w
     \<and> isPreloading (w_service w') = isPreloading (w_service w)"
  by (auto simp: fetchResultsInternal_def getFromCache_def setCache_def Let_def
      split: option.splits prod.splits if_splits sum.splits)

lemma keys_delete: "fst ` set (AList.delete k al) \<subseteq> fst ` set al"
  by (induction al) auto

lemma keys_update: "fst ` set (AList.update k v al) = insert k (fst ` set al)"
  by (induction al) auto

lemma getFromCache_cases:
  assumes "getFromCache now key s = (r, s')"
  shows "s' = s \<or> s' = s\<lparr>ds_cache := AList.delete key (ds_cache s)\<rparr>"
  using assms
  by (auto simp: getFromCache_def map_delete_def split: option.splits if_splits)

lemma getFromCache_keys:
  assumes "getFromCache now key s = (r, s')"
  shows "fst ` set (ds_cache s') \<subseteq> fst ` set (ds_cache s)"
  using getFromCache_cases[OF assms]
proof
  assume "s' = s"
  then show ?thesis by simp
next
  assume "s' = s\<lparr>ds_cache := AList.delete key (ds_cache s)\<rparr>"
  then show ?thesis by (simp add: keys_delete)
qed

lemma getFromCache_flag:
  assumes "getFromCache now key s = (r, s')"
  shows "isPreloading s' = isPreloading s"
  using getFromCache_cases[OF assms] by auto

lemma setCache_keys:
  "fst ` set (ds_cache (setCache now key d s)) = insert key (fst ` set (ds_cache s))"
  by (simp add: setCache_def map_set_def keys_update)

lemma fetchResultsInternal_keys:
  assumes "fetchResultsInternal now net i k w = (out, w')"
  shows "memo_keys w' \<subseteq> insert (cacheKey i) (memo_keys w)"
proof -
  obtain r s where g: "getFromCache now (cacheKey i) (w_service w) = (r, s)"
    by (cases "getFromCache now (cacheKey i) (w_service w)")
  have k: "fst ` set (ds_cache s) \<subseteq> memo_keys w"
    unfolding memo_keys_def using g by (rule getFromCache_keys)
  show ?thesis
  proof (cases r)
    case (Some cached)
    with assms g have "w_service w' = s" by (auto simp: fetchResultsInternal_def)
    then have "memo_keys w' = fst ` set (ds_cache s)" by (simp add: memo_keys_def)
    with k show ?thesis by blast
  next
    case None
    show ?thesis
    proof (cases "simpleJSONP (results_event net (getApiUrl k) i)")
      case (Inl e)
      with assms g None have "w_service w' = s"
        by (auto simp: fetchResultsInternal_def Let_def)
      then have "memo_keys w' = fst ` set (ds_cache s)" by (simp add: memo_keys_def)
      with k show ?thesis by blast
    next
      case (Inr res)
      with assms g None have "w_service w' = setCache now (cacheKey i) res s"
        by (auto simp: fetchResultsInternal_def Let_def)
      then have "memo_keys w' = insert (cacheKey i) (fst ` set (ds_cache s))"
        by (simp add: setCache_keys memo_keys_def)
      with k show ?thesis by blast
    qed
  qed
qed


lemma loadResultsFor_cases:
  assumes "loadResultsFor now net c (entries, res, w) = (entries', res', w')"
  obtains out where "fetchResultsInternal now net (raw_id c) (raw_category c) w = (out, w')"
    and "entries' = entries @
           [case out of
              Inr v \<Rightarrow> \<lparr>s_id = raw_id c, s_success = True, s_error = None\<rparr>
            | Inl e \<Rightarrow> \<lparr>s_id = raw_id c, s_success = False, s_error = Some (message e)\<rparr>]"
    and "res' = map_set (raw_id c) (case out of Inr v \<Rightarrow> v | Inl e \<Rightarrow> []) res"
proof -
  obtain out w1 where f: "fetchResultsInternal now net (raw_id c) (raw_category c) w = (out, w1)"
    by (cases "fetchResultsInternal now net (raw_id c) (raw_category c) w")
  with assms have "w' = w1" by (cases out) (auto simp: loadResultsFor_def)
  with f assms that show thesis
    by (cases out) (auto simp: loadResultsFor_def)
qed

lemma map_of_map_set_other: "k \<noteq> k' \<Longrightarrow> map_of (map_set k' v m) k = map_of m k"
  by (simp add: map_set_def update_conv')

lemma fold_loadResultsFor:
  assumes "fold (loadResultsFor now net) cs (entries, res, w) = (entries', res', w')"
  shows "w_cache w' = w_cache w \<and> w_storage w' = w_storage w \<and> w_manager w' = w_manager w
       \<and> isPreloading (w_service w') = isPreloading (w_service w)
       \<and> (\<exists>es. entries' = entries @ es \<and> length es = length cs)
       \<and> (\<forall>k. k \<notin> raw_id ` set cs \<longrightarrow> map_of res' k = map_of res k)
       \<and> memo_keys w' \<subseteq>
           memo_keys w \<union> (\<lambda>c. cacheKey (raw_id c)) ` set cs"
  using assms
proof (induction cs arbitrary: entries res w)
  case Nil
  then show ?case by simp
next
  case (Cons c cs)
  obtain e1 r1 w1 where s1: "loadResultsFor now net c (entries, res, w) = (e1, r1, w1)"
    by (cases "loadResultsFor now net c (entries, res, w)")
  with Cons.prems have rest: "fold (loadResultsFor now net) cs (e1, r1, w1) = (entries', res', w')"
    by simp
  note ih = Cons.IH[OF rest]
  from s1 obtain out where f: "fetchResultsInternal now net (raw_id c) (raw_category c) w = (out, w1)"
    and e1: "e1 = entries @
           [case out of
              Inr v \<Rightarrow> \<lparr>s_id = raw_id c, s_success = True, s_error = None\<rparr>
            | Inl e \<Rightarrow> \<lparr>s_id = raw_id c, s_success = False, s_error = Some (message e)\<rparr>]"
    and r1: "r1 = map_set (raw_id c) (case out of Inr v \<Rightarrow> v | Inl e \<Rightarrow> []) res"
    by (rule loadResultsFor_cases)
  note fr = fetchResultsInternal_frame[OF f]
  note ks = fetchResultsInternal_keys[OF f]
  have a: "w_cache w' = w_cache w \<and> w_storage w' = w_storage w \<and> w_manager w' = w_manager w
       \<and> isPreloading (w_service w') = isPreloading (w_service w)"
    using ih fr by simp
  have b: "\<exists>es. entries' = entries @ es \<and> length es = length (c # cs)"
  proof -
    from ih obtain es where "entries' = e1 @ es" "length es = length cs" by blast
    then show ?thesis using e1 by simp
  qed
  have c: "\<forall>k. k \<notin> raw_id ` set (c # cs) \<longrightarrow> map_of res' k = map_of res k"
  proof (intro allI impI)
    fix k assume k: "k \<notin> raw_id ` set (c # cs)"
    then have "map_of res' k = map_of r1 k" using ih by simp
    also have "\<dots> = map_of res k" using k by (simp add: r1 map_of_map_set_other)
    finally show "map_of res' k = map_of res k" .
  qed
  have d: "memo_keys w' \<subseteq>
           memo_keys w \<union> (\<lambda>c. cacheKey (raw_id c)) ` set (c # cs)"
  proof -
    from ih have "memo_keys w' \<subseteq> memo_keys w1 \<union> (\<lambda>c. cacheKey (raw_id c)) ` set cs"
      by blast
    with ks show ?thesis by auto
  qed
  show ?case using a b c d by blast
qed

lemma set_preloading_simps:
  "w_cache (set_preloading b w) = w_cache w"
  "w_storage (set_preloading b w) = w_storage w"
  "w_manager (set_preloading b w) = w_manager w"
  "w_requests (set_preloading b w) = w_requests w"
  "isPreloading (w_service (set_preloading b w)) = b"
  "ds_cache (w_service (set_preloading b w)) = ds_cache (w_service w)"
  by (simp_all add: set_preloading_def)

lemma DataService_preloadAllData_unfold:
  "DataService_preloadAllData now net w =
     (if isPreloading (w_service w) then (Inr AlreadyPreloading, w)
      else
        case fetchAllCompetitions_io net (set_preloading True w) of
          (Inl e, w2) \<Rightarrow> (Inl e, set_preloading False w2)
        | (Inr fetched, w2) \<Rightarrow>
            if science fetched = [] \<and> gem fetched = []
            then (Inl (Error NO_COMPETITIONS), set_preloading False w2)
            else
              let allCompetitions = science fetched @ gem fetched
              in case resultPromises now net allCompetitions w2 of
                   (resultsSummary, allResults, w3) \<Rightarrow>
                     let successCount = length (filter s_success resultsSummary);
                         g = \<lparr>competitions = Some fetched, results = allResults,
                              lastUpdated = Some now, isLoaded = True\<rparr>;
                         w4 = w3\<lparr>w_cache := g, w_storage := saveToLocalStorage g (w_storage w3)\<rparr>
                     in (Inr (Preloaded fetched allResults
                                \<lparr>sm_total = length allCompetitions,
                                 sm_loaded = successCount,
                                 sm_failed = length allCompetitions - successCount\<rparr>),
                         set_preloading False w4))"
  by (simp add: DataService_preloadAllData_def preloadAllData_run_def Let_def
      split: prod.splits sum.splits)








section \<open>Facts about initialization\<close>

lemma fetchAllCompetitions_io_frame:
  "fetchAllCompetitions_io net w = (r, w') \<Longrightarrow>
     w_cache w' = w_cache w \<and> w_storage w' = w_storage w \<and> w_manager w' = w_manager w
     \<and> w_service w' = w_service w"
  by (auto simp: fetchAllCompetitions_io_def)

lemma resultPromises_frame:
  assumes "resultPromises now net cs w = (entries, res, w')"
  shows "w_cache w' = w_cache w" "w_storage w' = w_storage w" "w_manager w' = w_manager w"
  using fold_loadResultsFor[OF assms[unfolded resultPromises_def]] by simp_all

lemma DataService_preloadAllData_cache:
  assumes "DataService_preloadAllData now net w = (r, w')"
  shows "(\<exists>cat res sm. r = Inr (Preloaded cat res sm)
            \<and> w_cache w' = \<lparr>competitions = Some cat, results = res, lastUpdated = Some now,
                             isLoaded = True\<rparr>)
       \<or> ((\<forall>cat res sm. r \<noteq> Inr (Preloaded cat res sm)) \<and> w_cache w' = w_cache w)"
proof (cases "isPreloading (w_service w)")
  case True
  with assms show ?thesis by (auto simp: DataService_preloadAllData_unfold)
next
  case False
  obtain f w2 where io: "fetchAllCompetitions_io net (set_preloading True w) = (f, w2)"
    by (cases "fetchAllCompetitions_io net (set_preloading True w)")
  have c2: "w_cache w2 = w_cache w"
    using fetchAllCompetitions_io_frame[OF io] by (simp add: set_preloading_simps)
  show ?thesis
  proof (cases f)
    case (Inl e)
    with assms False io c2 show ?thesis
      by (auto simp: DataService_preloadAllData_unfold set_preloading_simps)
  next
    case (Inr fetched)
    show ?thesis
    proof (cases "science fetched = [] \<and> gem fetched = []")
      case True
      with assms False io c2 Inr show ?thesis
        by (auto simp: DataService_preloadAllData_unfold set_preloading_simps)
    next
      case nonempty: False
      obtain entries res w3 where
        rp: "resultPromises now net (science fetched @ gem fetched) w2 = (entries, res, w3)"
        by (cases "resultPromises now net (science fetched @ gem fetched) w2")
      from assms False io Inr nonempty rp
      have "r = Inr (Preloaded fetched res
                \<lparr>sm_total = length (science fetched @ gem fetched),
                 sm_loaded = length (filter s_success entries),
                 sm_failed = length (science fetched @ gem fetched)
                             - length (filter s_success entries)\<rparr>)"
        and "w_cache w' = \<lparr>competitions = Some fetched, results = res, lastUpdated = Some now,
                             isLoaded = True\<rparr>"
        by (auto simp: DataService_preloadAllData_unfold Let_def set_preloading_simps)
      then show ?thesis by blast
    qed
  qed
qed

lemma loadAllCompetitions_io_cache:
  "loadAllCompetitions_io net w = (r, w') \<Longrightarrow> w_cache w' = w_cache w"
  by (auto simp: loadAllCompetitions_io_def fetchAllCompetitions_io_def
      split: prod.splits sum.splits)

lemma CompetitionManager_preloadAllData_cache:
  assumes "CompetitionManager_preloadAllData now net w = (r, w')"
  shows "w_cache w' = w_cache w
       \<or> (isLoaded (w_cache w') \<and> competitions (w_cache w') \<noteq> None)"
proof -
  obtain r1 w1 where d: "DataService_preloadAllData now net w = (r1, w1)"
    by (cases "DataService_preloadAllData now net w")
  have w': "w_cache w' = w_cache w1"
    using assms d
    by (auto simp: CompetitionManager_preloadAllData_def
        split: sum.splits preload_result.splits dest: loadAllCompetitions_io_cache)
  from DataService_preloadAllData_cache[OF d] show ?thesis
    using w' by auto
qed

lemma loadFromLocalStorage_False:
  "loadFromLocalStorage now g s = (False, g') \<Longrightarrow> g' = g"
  by (auto simp: loadFromLocalStorage_def split: if_splits option.splits stored_text.splits)

lemma loadFromGlobalCache_Inr:
  "loadFromGlobalCache g m = Inr m' \<Longrightarrow> isLoaded g \<and> competitions g \<noteq> None"
  by (auto simp: loadFromGlobalCache_def split: option.splits if_splits)

lemma finish_loading_simps:
  "w_cache (finish_loading b w) = w_cache w"
  "w_storage (finish_loading b w) = w_storage w"
  "w_requests (finish_loading b w) = w_requests w"
  "w_service (finish_loading b w) = w_service w"
  by (simp_all add: finish_loading_def)

lemma initialize_cache_after:
  assumes "initialize now net w = (None, w1)"
  shows "(isLoaded (w_cache w1) \<and> competitions (w_cache w1) \<noteq> None)
       \<or> (w_cache w1 = w_cache w \<and> \<not> isCacheReady now (w_cache w))"
proof -
  define w0 where "w0 = w\<lparr>w_manager := (w_manager w)\<lparr>cm_isLoading := True\<rparr>\<rparr>"
  have c0: "w_cache w0 = w_cache w" by (simp add: w0_def)
  show ?thesis
  proof (cases "isCacheReady now (w_cache w)")
    case True
    with assms obtain m where "loadFromGlobalCache (w_cache w0) (w_manager w0) = Inr m"
      and "w1 = finish_loading True (w0\<lparr>w_manager := m\<rparr>)"
      by (auto simp: initialize_def Let_def w0_def[symmetric] c0 split: sum.splits)
    then show ?thesis
      using loadFromGlobalCache_Inr[of "w_cache w0" "w_manager w0" m]
      by (simp add: finish_loading_simps)
  next
    case notready: False
    obtain ok g where l: "loadFromLocalStorage now (w_cache w0) (w_storage w0) = (ok, g)"
      by (cases "loadFromLocalStorage now (w_cache w0) (w_storage w0)")
    show ?thesis
    proof (cases ok)
      case True
      with assms notready l obtain m where "loadFromGlobalCache g (w_manager w0) = Inr m"
        and "w1 = finish_loading True (w0\<lparr>w_cache := g, w_manager := m\<rparr>)"
        by (auto simp: initialize_def Let_def w0_def[symmetric] c0 split: sum.splits)
      then show ?thesis
        using loadFromGlobalCache_Inr[of g "w_manager w0" m]
        by (simp add: finish_loading_simps)
    next
      case False
      with l have g: "g = w_cache w"
        using loadFromLocalStorage_False[of now "w_cache w0" "w_storage w0" g] c0 by simp
      obtain r w2 where p: "CompetitionManager_preloadAllData now net (w0\<lparr>w_cache := g\<rparr>) = (r, w2)"
        by (cases "CompetitionManager_preloadAllData now net (w0\<lparr>w_cache := g\<rparr>)")
      with assms notready l False have "w1 = finish_loading True w2"
        by (auto simp: initialize_def Let_def w0_def[symmetric] c0 split: option.splits)
      then have "w_cache w1 = w_cache w2" by (simp add: finish_loading_simps)
      with CompetitionManager_preloadAllData_cache[OF p] g notready show ?thesis
        by auto
    qed
  qed
qed

lemma isCacheValid_earlier:
  "isCacheValid now2 g \<Longrightarrow> now1 \<le> now2 \<Longrightarrow> isCacheValid now1 g"
  by (auto simp: isCacheValid_def split: option.splits)

lemma processCompetitions_Nil: "processCompetitions [] k = []"
  by (simp add: processCompetitions_def)

lemma initialize_empty_network:
  assumes "w_cache w = initial_cache" and "w_storage w = empty_storage"
    and "w_service w = \<lparr>ds_cache = [], isPreloading = False\<rparr>"
  shows "initialize now empty_network w =
     (None, w\<lparr>w_manager := (w_manager w)\<lparr>cm_science := [], cm_gem := [], cm_all := [],
                   cm_errors_science := SlotNull, cm_errors_gem := SlotNull,
                   cm_isInitialized := True, cm_isLoading := False\<rparr>,
               w_requests := w_requests w @
                 [GetCompetitions ScienceUrl, GetCompetitions GemUrl,
                  GetCompetitions ScienceUrl, GetCompetitions GemUrl]\<rparr>)"
proof -
  define w0 where "w0 = w\<lparr>w_manager := (w_manager w)\<lparr>cm_isLoading := True\<rparr>\<rparr>"
  have f: "fetchAllCompetitions (fetchScienceCompetitions (competitions_event empty_network ScienceUrl))
             (fetchGemCompetitions (competitions_event empty_network GemUrl))
           = Inr \<lparr>science = [], gem = [], errors_science = SlotNull, errors_gem = SlotNull\<rparr>"
    by (simp add: fetchAllCompetitions_def fetchScienceCompetitions_def fetchGemCompetitions_def
        empty_network_def)
  have nr: "\<not> isCacheReady now (w_cache w0)"
    by (simp add: w0_def assms isCacheReady_def initial_cache_def)
  have nl: "loadFromLocalStorage now (w_cache w0) (w_storage w0) = (False, w_cache w0)"
    by (simp add: w0_def assms loadFromLocalStorage_def empty_storage_def)
  have d: "DataService_preloadAllData now empty_network w0 =
             (Inl (Error NO_COMPETITIONS),
              w0\<lparr>w_requests := w_requests w @ [GetCompetitions ScienceUrl, GetCompetitions GemUrl]\<rparr>)"
    by (simp add: DataService_preloadAllData_unfold fetchAllCompetitions_io_def f set_preloading_def
        w0_def assms)
  have p: "CompetitionManager_preloadAllData now empty_network w0 =
     (None, w0\<lparr>w_manager := (w_manager w0)\<lparr>cm_science := [], cm_gem := [], cm_all := [],
                   cm_errors_science := SlotNull, cm_errors_gem := SlotNull\<rparr>,
               w_requests := w_requests w @
                 [GetCompetitions ScienceUrl, GetCompetitions GemUrl,
                  GetCompetitions ScienceUrl, GetCompetitions GemUrl]\<rparr>)"
    by (simp add: CompetitionManager_preloadAllData_def d loadAllCompetitions_io_def
        fetchAllCompetitions_io_def f loadAllCompetitions_def processCompetitions_Nil Let_def)
  have same: "w0\<lparr>w_cache := w_cache w0\<rparr> = w0" by simp
  show ?thesis
    unfolding initialize_def Let_def w0_def[symmetric]
    using nr nl p by (simp add: same finish_loading_def w0_def)
qed

lemma DataService_preloadAllData_success:
  assumes "\<not> isPreloading (w_service w)"
      and "fetchAllCompetitions (fetchScienceCompetitions (competitions_event net ScienceUrl))
             (fetchGemCompetitions (competitions_event net GemUrl)) = Inr cat"
      and "science cat \<noteq> [] \<or> gem cat \<noteq> []"
  shows "\<exists>res sm w'.
           DataService_preloadAllData now net w = (Inr (Preloaded cat res sm), w')
         \<and> w_cache w' = \<lparr>competitions = Some cat, results = res, lastUpdated = Some now,
                          isLoaded = True\<rparr>
         \<and> w_manager w' = w_manager w"
proof -
  define w2 where "w2 = snd (fetchAllCompetitions_io net (set_preloading True w))"
  have io: "fetchAllCompetitions_io net (set_preloading True w) = (Inr cat, w2)"
    using assms(2) by (simp add: w2_def fetchAllCompetitions_io_def)
  have m2: "w_manager w2 = w_manager w"
    by (simp add: w2_def fetchAllCompetitions_io_def set_preloading_simps)
  obtain entries res w3 where
    rp: "resultPromises now net (science cat @ gem cat) w2 = (entries, res, w3)"
    by (cases "resultPromises now net (science cat @ gem cat) w2")
  have m3: "w_manager w3 = w_manager w2" using resultPromises_frame(3)[OF rp] .
  from assms(1,3) io rp
  have "DataService_preloadAllData now net w =
     (Inr (Preloaded cat res
        \<lparr>sm_total = length (science cat @ gem cat),
         sm_loaded = length (filter s_success entries),
         sm_failed = length (science cat @ gem cat) - length (filter s_success entries)\<rparr>),
      set_preloading False
        (w3\<lparr>w_cache := \<lparr>competitions = Some cat, results = res, lastUpdated = Some now,
                          isLoaded = True\<rparr>,
            w_storage := saveToLocalStorage
               \<lparr>competitions = Some cat, results = res, lastUpdated = Some now,
                 isLoaded = True\<rparr> (w_storage w3)\<rparr>))"
    by (auto simp: DataService_preloadAllData_unfold Let_def)
  then show ?thesis
    using m2 m3 by (auto simp: set_preloading_simps)
qed

lemma initialize_preloads:
  assumes "\<not> isCacheReady now (w_cache w)"
      and "fst (loadFromLocalStorage now (w_cache w) (w_storage w)) = False"
      and "\<not> isPreloading (w_service w)"
      and "fetchAllCompetitions (fetchScienceCompetitions (competitions_event net ScienceUrl))
             (fetchGemCompetitions (competitions_event net GemUrl)) = Inr cat"
      and "science cat \<noteq> [] \<or> gem cat \<noteq> []"
  shows "\<exists>w1. initialize now net w = (None, w1)
            \<and> isLoaded (w_cache w1) \<and> lastUpdated (w_cache w1) = Some now
            \<and> competitions (w_cache w1) = Some cat"
proof -
  define w0 where "w0 = w\<lparr>w_manager := (w_manager w)\<lparr>cm_isLoading := True\<rparr>\<rparr>"
  have c0: "w_cache w0 = w_cache w" "w_storage w0 = w_storage w" "w_service w0 = w_service w"
    by (simp_all add: w0_def)
  obtain g where l: "loadFromLocalStorage now (w_cache w0) (w_storage w0) = (False, g)"
    using assms(2) c0 by (cases "loadFromLocalStorage now (w_cache w) (w_storage w)") auto
  then have g: "g = w_cache w0" by (rule loadFromLocalStorage_False)
  have same: "w0\<lparr>w_cache := g\<rparr> = w0" by (simp add: g)
  from DataService_preloadAllData_success[OF _ assms(4,5), of w0 now] assms(3) c0
  obtain res sm w' where d: "DataService_preloadAllData now net w0 = (Inr (Preloaded cat res sm), w')"
    and c': "w_cache w' = \<lparr>competitions = Some cat, results = res, lastUpdated = Some now,
                          isLoaded = True\<rparr>"
    by auto
  obtain m where m: "loadFromGlobalCache (w_cache w') (w_manager w') = Inr m"
    by (simp add: loadFromGlobalCache_def c' Let_def)
  have p: "CompetitionManager_preloadAllData now net w0 = (None, w'\<lparr>w_manager := m\<rparr>)"
    by (simp add: CompetitionManager_preloadAllData_def d m)
  have "initialize now net w = (None, finish_loading True (w'\<lparr>w_manager := m\<rparr>))"
    unfolding initialize_def Let_def w0_def[symmetric]
    using assms(1) c0 l p by (simp add: same)
  then show ?thesis
    by (simp add: finish_loading_simps c')
qed

section \<open>Facts about the accessors on the heap\<close>

lemma alloc_view:
  assumes "manager_view refs h m" and "alloc xs h = (a, h1)"
  shows "manager_view refs h1 m" and "h1 ! a = xs" and "a = length h" and "length h1 = Suc (length h)"
  using assms by (auto simp: manager_view_def alloc_def nth_append)

lemma mutate_view:
  assumes "manager_view refs h m" and "a \<notin> {ref_science refs, ref_gem refs, ref_all refs}"
  shows "manager_view refs (mutate a f h) m"
  using assms by (auto simp: manager_view_def mutate_def)

lemma alloc_fresh:
  assumes "manager_view refs h m" and "alloc xs h = (a, h1)"
  shows "a \<notin> {ref_science refs, ref_gem refs, ref_all refs}"
  using assms by (auto simp: manager_view_def alloc_def)

lemma getAllCompetitions_heap_view:
  assumes "manager_view refs h m" and "getAllCompetitions_heap refs h = (a, h1)"
  shows "h1 ! a = getAllCompetitions m" and "manager_view refs (mutate a f h1) m"
proof -
  from assms have al: "alloc (cm_all m) h = (a, h1)"
    by (simp add: getAllCompetitions_heap_def manager_view_def)
  show "h1 ! a = getAllCompetitions m"
    using alloc_view(2)[OF assms(1) al] by (simp add: getAllCompetitions_def)
  show "manager_view refs (mutate a f h1) m"
    using alloc_view(1)[OF assms(1) al] alloc_fresh[OF assms(1) al]
      alloc_view(3)[OF assms(1) al] assms(1)
    by (auto simp: manager_view_def mutate_def)
qed

lemma getCompetitionsByCategory_heap_alloc:
  assumes "manager_view refs h m"
  shows "getCompetitionsByCategory_heap refs k h = alloc (getCompetitionsByCategory m k) h"
  using assms
  by (simp add: getCompetitionsByCategory_heap_def getCompetitionsByCategory_def
      manager_view_def Let_def)

lemma getCompetitionsByCategory_heap_view:
  assumes "manager_view refs h m" and "getCompetitionsByCategory_heap refs k h = (a, h1)"
  shows "h1 ! a = getCompetitionsByCategory m k" and "manager_view refs (mutate a f h1) m"
proof -
  from assms have al: "alloc (getCompetitionsByCategory m k) h = (a, h1)"
    by (simp add: getCompetitionsByCategory_heap_alloc)
  show "h1 ! a = getCompetitionsByCategory m k"
    using alloc_view(2)[OF assms(1) al] .
  show "manager_view refs (mutate a f h1) m"
    using alloc_view(1)[OF assms(1) al] alloc_view(3)[OF assms(1) al] assms(1)
    by (auto simp: manager_view_def mutate_def)
qed

lemma getCompetitionsGrouped_heap_view:
  assumes "manager_view refs h m" and "getCompetitionsGrouped_heap refs h = (g, h3)"
  shows "h3 ! gr_science g = g_science (getCompetitionsGrouped m)"
    and "h3 ! gr_gem g = g_gem (getCompetitionsGrouped m)"
    and "h3 ! gr_academic g = g_academic (getCompetitionsGrouped m)"
    and "a \<in> {gr_science g, gr_gem g, gr_academic g} \<Longrightarrow> manager_view refs (mutate a f h3) m"
proof -
  from assms have g: "g = \<lparr>gr_science = length h, gr_gem = Suc (length h),
      gr_academic = Suc (Suc (length h))\<rparr>"
    and h3: "h3 = h @ [cm_science m, cm_gem m, cm_gem m]"
    by (auto simp: getCompetitionsGrouped_heap_def alloc_def manager_view_def nth_append)
  show "h3 ! gr_science g = g_science (getCompetitionsGrouped m)"
    "h3 ! gr_gem g = g_gem (getCompetitionsGrouped m)"
    "h3 ! gr_academic g = g_academic (getCompetitionsGrouped m)"
    by (simp_all add: g h3 getCompetitionsGrouped_def nth_append)
  assume "a \<in> {gr_science g, gr_gem g, gr_academic g}"
  then have "length h \<le> a" by (auto simp: g)
  with assms(1) show "manager_view refs (mutate a f h3) m"
    by (auto simp: manager_view_def mutate_def h3 nth_append)
qed

section \<open>Fetching both categories\<close>

text \<open>
  C1. For every pair of outcomes of the two per-category competition fetches,
  \<open>fetchAllCompetitions\<close> resolves: a fulfilled category yields its array and a null
  error slot, a rejected category yields the empty array and its reason in that
  category's error slot, independently of the other category. In particular a category
  endpoint that successfully returns an empty array yields a null error slot.
\<close>

theorem fetchAllCompetitions_never_fails:
  "fetchAllCompetitions (Inr xs) (Inr ys) =
     Inr \<lparr>science = xs, gem = ys, errors_science = SlotNull, errors_gem = SlotNull\<rparr>
   \<and> fetchAllCompetitions (Inl e) (Inr ys) =
     Inr \<lparr>science = [], gem = ys, errors_science = SlotError e, errors_gem = SlotNull\<rparr>
   \<and> fetchAllCompetitions (Inr xs) (Inl e') =
     Inr \<lparr>science = xs, gem = [], errors_science = SlotNull, errors_gem = SlotError e'\<rparr>
   \<and> fetchAllCompetitions (Inl e) (Inl e') =
     Inr \<lparr>science = [], gem = [], errors_science = SlotError e, errors_gem = SlotError e'\<rparr>
   \<and> (\<exists>c. fetchAllCompetitions
            (fetchScienceCompetitions
               (Callback (Some \<lparr>res_success = True, res_data = Some [], res_error = None\<rparr>)))
            gemOutcome = Inr c
          \<and> science c = [] \<and> errors_science c = SlotNull)"
  by (cases gemOutcome) (simp_all add: fetchAllCompetitions_def fetchScienceCompetitions_def)

text \<open>
  The scenario of the specification: the science endpoint answers with an empty array
  and the gem endpoint with one record. The manager then holds one competition and a
  null error slot for science.
\<close>

lemma empty_science_is_not_a_failure:
  "\<exists>m'. loadAllCompetitions new_manager
          (fetchAllCompetitions (Inr [])
             (Inr [example_competition (JStr (js ''essay'')) (JStr (js ''Essay''))])) = Inr m'
        \<and> length (getAllCompetitions m') = 1
        \<and> cm_errors_science m' = SlotNull \<and> cm_errors_gem m' = SlotNull"
  by (simp add: loadAllCompetitions_def fetchAllCompetitions_def getAllCompetitions_def
      processCompetitions_def validateCompetition_def field_present_def
      example_competition_def js_def Let_def)

section \<open>Calling the entry point twice\<close>

text \<open>
  The claim C2 as stated fails when the first call finds no competition: both category
  endpoints answer with an empty array, \<open>DataService.preloadAllData\<close> throws, the
  fallback of the manager loads the (empty) catalogues, and \<open>initialize\<close> returns
  normally with the global cache still unloaded. The second call finds no valid cache
  and goes to the network again: four requests in each call.
\<close>

theorem no_competitions_refetched_counterexample:
  "fst (initialize 1700000000000 empty_network new_world) = None
   \<and> length (w_requests (snd (initialize 1700000000000 empty_network new_world))) = 4
   \<and> isLoaded (w_cache (snd (initialize 1700000000000 empty_network new_world))) = False
   \<and> fst (initialize 1700000000001 empty_network
            (snd (initialize 1700000000000 empty_network new_world))) = None
   \<and> length (w_requests (snd (initialize 1700000000001 empty_network
            (snd (initialize 1700000000000 empty_network new_world))))) = 8"
proof -
  have i1: "initialize 1700000000000 empty_network new_world =
     (None, new_world\<lparr>w_manager := (w_manager new_world)\<lparr>cm_science := [], cm_gem := [], cm_all := [],
                   cm_errors_science := SlotNull, cm_errors_gem := SlotNull,
                   cm_isInitialized := True, cm_isLoading := False\<rparr>,
               w_requests := w_requests new_world @
                 [GetCompetitions ScienceUrl, GetCompetitions GemUrl,
                  GetCompetitions ScienceUrl, GetCompetitions GemUrl]\<rparr>)"
    by (rule initialize_empty_network) (simp_all add: new_world_def)
  show ?thesis
    unfolding i1 fst_conv snd_conv
    by (subst (1 2) initialize_empty_network)
       (simp_all add: new_world_def initial_cache_def)
qed

text \<open>
  C2, amended. For every first call of \<open>initialize\<close> that returns normally and leaves
  the global cache loaded, with a timestamp \<open>t\<close>, a second call made afterwards at a
  clock reading \<open>now2\<close> with \<open>now2 - t\<close> under the TTL, whatever the network would
  answer, returns normally without issuing any request: it finds the cache valid, leaves
  the cache and the storage as they are, and loads the manager's collections from the
  cached catalogue. (\<open>initialize_preloads\<close>: a first call that has to preload and
  finds at least one competition leaves the cache loaded with the timestamp of the
  call.)
\<close>

theorem second_initialize_uses_cache:
  assumes "initialize now1 net1 w = (None, w1)"
      and "now1 \<le> now2"
      and "isLoaded (w_cache w1)"
      and "lastUpdated (w_cache w1) = Some t" and "t \<noteq> 0" and "now2 - t < CACHE_TIMEOUT"
  shows "\<exists>w2 cat.
           initialize now2 net2 w1 = (None, w2)
         \<and> w_requests w2 = w_requests w1
         \<and> w_cache w2 = w_cache w1
         \<and> w_storage w2 = w_storage w1
         \<and> competitions (w_cache w1) = Some cat
         \<and> cm_science (w_manager w2) = processCompetitions (science cat) (js ''science'')
         \<and> cm_gem (w_manager w2) = processCompetitions (gem cat) (js ''gem'')
         \<and> getAllCompetitions (w_manager w2) = cm_science (w_manager w2) @ cm_gem (w_manager w2)
         \<and> cm_isInitialized (w_manager w2) \<and> \<not> cm_isLoading (w_manager w2)"
proof -
  have valid2: "isCacheValid now2 (w_cache w1)"
    using assms(3-6) by (simp add: isCacheValid_def)
  then have ready2: "isCacheReady now2 (w_cache w1)"
    using assms(3) by (simp add: isCacheReady_def)
  have "isCacheReady now1 (w_cache w1)"
    using isCacheValid_earlier[OF valid2 assms(2)] assms(3) by (simp add: isCacheReady_def)
  with initialize_cache_after[OF assms(1)] obtain cat where
    cat: "competitions (w_cache w1) = Some cat"
    by auto
  define m where "m = (w_manager w1)\<lparr>cm_isLoading := True,
      cm_science := processCompetitions (science cat) (js ''science''),
      cm_gem := processCompetitions (gem cat) (js ''gem''),
      cm_all := processCompetitions (science cat) (js ''science'')
                @ processCompetitions (gem cat) (js ''gem''),
      cm_errors_science := errors_science cat, cm_errors_gem := errors_gem cat\<rparr>"
  define w2 where "w2 = finish_loading True
      (w1\<lparr>w_manager := (w_manager w1)\<lparr>cm_isLoading := True\<rparr>, w_manager := m\<rparr>)"
  have l: "loadFromGlobalCache (w_cache w1) ((w_manager w1)\<lparr>cm_isLoading := True\<rparr>) = Inr m"
    using cat assms(3) by (simp add: loadFromGlobalCache_def Let_def m_def)
  have run: "initialize now2 net2 w1 = (None, w2)"
    using ready2 l by (simp add: initialize_def Let_def w2_def)
  have "w_requests w2 = w_requests w1" "w_cache w2 = w_cache w1" "w_storage w2 = w_storage w1"
    by (simp_all add: w2_def finish_loading_simps)
  moreover have "cm_science (w_manager w2) = processCompetitions (science cat) (js ''science'')"
    "cm_gem (w_manager w2) = processCompetitions (gem cat) (js ''gem'')"
    "getAllCompetitions (w_manager w2) = cm_science (w_manager w2) @ cm_gem (w_manager w2)"
    "cm_isInitialized (w_manager w2)" "\<not> cm_isLoading (w_manager w2)"
    by (simp_all add: w2_def finish_loading_def m_def getAllCompetitions_def)
  ultimately show ?thesis using run cat by blast
qed

theorem second_initialize_uses_cache_witness:
  "\<exists>w1. initialize 1700000000000 example_network new_world = (None, w1)
      \<and> (1700000000000 :: int) \<le> 1700000001000
      \<and> isLoaded (w_cache w1)
      \<and> lastUpdated (w_cache w1) = Some 1700000000000
      \<and> 1700000001000 - 1700000000000 < CACHE_TIMEOUT
      \<and> (\<exists>w2. initialize 1700000001000 dead_network w1 = (None, w2)
             \<and> w_requests w2 = w_requests w1
             \<and> w_cache w2 = w_cache w1)"
proof -
  have f: "fetchAllCompetitions
        (fetchScienceCompetitions (competitions_event example_network ScienceUrl))
        (fetchGemCompetitions (competitions_event example_network GemUrl)) = Inr example_fetched"
    by (simp add: fetchAllCompetitions_def fetchScienceCompetitions_def fetchGemCompetitions_def
        example_network_def example_fetched_def)
  have "\<exists>w1. initialize 1700000000000 example_network new_world = (None, w1)
            \<and> isLoaded (w_cache w1) \<and> lastUpdated (w_cache w1) = Some 1700000000000
            \<and> competitions (w_cache w1) = Some example_fetched"
    by (rule initialize_preloads[OF _ _ _ f])
       (simp_all add: new_world_def isCacheReady_def initial_cache_def loadFromLocalStorage_def
          empty_storage_def example_fetched_def)
  then obtain w1 where i1: "initialize 1700000000000 example_network new_world = (None, w1)"
    and l1: "isLoaded (w_cache w1)" and t1: "lastUpdated (w_cache w1) = Some 1700000000000"
    by blast
  have le: "(1700000000000 :: int) \<le> 1700000001000" by simp
  have ttl: "1700000001000 - 1700000000000 < CACHE_TIMEOUT" by (simp add: CACHE_TIMEOUT_def)
  from second_initialize_uses_cache[OF i1 le l1 t1 _ ttl, of dead_network]
  obtain w2 where "initialize 1700000001000 dead_network w1 = (None, w2)"
    "w_requests w2 = w_requests w1" "w_cache w2 = w_cache w1"
    by auto
  with i1 le l1 t1 ttl show ?thesis by blast
qed

section \<open>Validity of the cache snapshot\<close>

text \<open>
  C3. At every clock reading that is at least one TTL after the epoch (every reading of a
  real clock), and for every snapshot, \<open>isCacheValid\<close> returns true if and only if the
  loaded flag is set and the elapsed time since \<open>lastUpdated\<close> is under the TTL. With the
  loaded flag set, a snapshot updated TTL + 1 ms ago is invalid and one updated
  TTL - 1 ms ago is valid.
\<close>

theorem isCacheValid_iff_loaded_and_fresh:
  assumes "CACHE_TIMEOUT \<le> now"
  shows "(isCacheValid now g \<longleftrightarrow> isLoaded g \<and> elapsed now g < CACHE_TIMEOUT)
    \<and> \<not> isCacheValid now (g\<lparr>isLoaded := True, lastUpdated := Some (now - (CACHE_TIMEOUT + 1))\<rparr>)
    \<and> isCacheValid now (g\<lparr>isLoaded := True, lastUpdated := Some (now - (CACHE_TIMEOUT - 1))\<rparr>)"
  using assms by (auto simp: isCacheValid_def elapsed_def CACHE_TIMEOUT_def split: option.splits)

theorem isCacheValid_iff_loaded_and_fresh_witness:
  "CACHE_TIMEOUT \<le> 1700000000000
   \<and> \<not> isCacheValid 1700000000000
        (\<lparr>competitions = None, results = [], lastUpdated = Some 1600000000000,
          isLoaded = True\<rparr> :: (unit, unit) global_cache)
   \<and> isCacheValid 1700000000000
        (\<lparr>competitions = None, results = [], lastUpdated = Some 1699999999000,
          isLoaded = True\<rparr> :: (unit, unit) global_cache)"
  using isCacheValid_iff_loaded_and_fresh [of 1700000000000
      "\<lparr>competitions = None, results = [], lastUpdated = Some 1600000000000,
        isLoaded = True\<rparr> :: (unit, unit) global_cache"]
    isCacheValid_iff_loaded_and_fresh [of 1700000000000
      "\<lparr>competitions = None, results = [], lastUpdated = Some 1699999999000,
        isLoaded = True\<rparr> :: (unit, unit) global_cache"]
  by (simp add: CACHE_TIMEOUT_def elapsed_def)

text \<open>
  The guard on \<open>lastUpdated\<close> itself: a null or zero timestamp is never valid, which
  differs from the comparison of the elapsed time only while the clock reads less than
  one TTL.
\<close>

lemma isCacheValid_needs_timestamp:
  "isCacheValid now g \<longleftrightarrow>
     isLoaded g \<and> (\<exists>t. lastUpdated g = Some t \<and> t \<noteq> 0 \<and> now - t < CACHE_TIMEOUT)"
  by (auto simp: isCacheValid_def split: option.splits)

section \<open>Persisting and restoring the snapshot\<close>

text \<open>
  The claim C4 as stated fails, in five ways. (1) For a snapshot whose catalogue holds
  the \<open>Error\<close> of a failed category fetch: \<open>JSON.stringify\<close> writes an \<open>Error\<close> as
  \<open>{}\<close>, so the restored catalogue differs from the persisted one in that slot. (2) For
  a results map with a key that is not a string: \<open>Object.fromEntries\<close> turns the number
  7 into the property name \<open>7\<close>, and the restored map has nothing under the number.
  (3) For a results map whose ids \<open>b\<close> and \<open>1\<close> were entered in this order: the
  restored map lists \<open>1\<close> first. (4) When the storage cannot be written, nothing is
  persisted and restoring fails. (5) A snapshot stamped 0 is not restored, even at clock
  reading 1.
\<close>

theorem error_slot_not_restored_counterexample:
  "fst (loadFromLocalStorage 1700000000001 initial_cache
          (saveToLocalStorage example_snapshot empty_storage)) = True
   \<and> results (snd (loadFromLocalStorage 1700000000001 initial_cache
          (saveToLocalStorage example_snapshot empty_storage))) = results example_snapshot
   \<and> map_option errors_science (competitions example_snapshot)
        = Some (SlotError (Error ERRORS_SCIENCE_LOAD_FAILED))
   \<and> map_option errors_science (competitions (snd (loadFromLocalStorage 1700000000001
          initial_cache (saveToLocalStorage example_snapshot empty_storage))))
        = Some SlotEmptyObject
   \<and> competitions (snd (loadFromLocalStorage 1700000000001 initial_cache
          (saveToLocalStorage example_snapshot empty_storage)))
        \<noteq> competitions example_snapshot
   \<and> results (snd (loadFromLocalStorage 1700000000001 initial_cache
          (saveToLocalStorage (example_snapshot\<lparr>results := [(JNum 7, [empty_row])]\<rparr>)
             empty_storage))) = [(JStr (js ''7''), [empty_row])]
   \<and> map_get (results (snd (loadFromLocalStorage 1700000000001 initial_cache
          (saveToLocalStorage (example_snapshot\<lparr>results := [(JNum 7, [empty_row])]\<rparr>)
             empty_storage)))) (JNum 7) = None
   \<and> results (snd (loadFromLocalStorage 1700000000001 initial_cache
          (saveToLocalStorage
             (example_snapshot\<lparr>results := [(JStr (js ''b''), [empty_row]), (JStr (js ''1''), [])]\<rparr>)
             empty_storage))) = [(JStr (js ''1''), []), (JStr (js ''b''), [empty_row])]
   \<and> fst (loadFromLocalStorage 1700000000001 initial_cache
          (saveToLocalStorage example_snapshot (empty_storage\<lparr>available := False\<rparr>))) = False
   \<and> 1 - 0 \<le> CACHE_TIMEOUT
   \<and> fst (loadFromLocalStorage 1 initial_cache
          (saveToLocalStorage (example_snapshot\<lparr>lastUpdated := Some 0\<rparr>) empty_storage)) = False"
  by (simp add: loadFromLocalStorage_def saveToLocalStorage_def example_snapshot_def
      empty_storage_def initial_cache_def CACHE_TIMEOUT_def json_catalogue_def fromEntries_def
      map_of_entries_def own_property_order_def array_index_def index_or_zero_def
      digits_value_def digit_value_def int_to_string_def digits_of.simps map_get_def js_def)

text \<open>
  C4, amended. For every in-memory snapshot with a non-zero timestamp within the TTL and
  a results map keyed by strings, when the storage accepts the write, persisting and then
  restoring (with the same version tag) succeeds and repopulates the global cache with
  the persisted timestamp, the loaded flag set, the persisted catalogue in which every
  error slot holding an \<open>Error\<close> has become an empty object, and a results map with the
  entries of the persisted one (the same rows under every id), listed with the ids that
  read as array indices first, in ascending order, and the others after them in their
  original order. When no slot holds an \<open>Error\<close> and no id reads as an array index, the
  restored snapshot is the persisted one with the loaded flag set. (That the keys of
  \<open>results g\<close> are distinct is what makes the list a \<open>Map\<close>.)
\<close>

theorem persist_then_restore:
  assumes "available ls"
      and "lastUpdated g = Some t" and "t \<noteq> 0" and "now - t \<le> CACHE_TIMEOUT"
      and "list_all is_string (map fst (results g))" and "distinct (map fst (results g))"
  shows "loadFromLocalStorage now g0 (saveToLocalStorage g ls) =
           (True, \<lparr>competitions = map_option json_catalogue (competitions g),
                   results = restored_order (results g), lastUpdated = lastUpdated g,
                   isLoaded = True\<rparr>)
    \<and> (\<forall>k. map_get (restored_order (results g)) k = map_get (results g) k)
    \<and> mset (restored_order (results g)) = mset (results g)
    \<and> ((case competitions g of
           None \<Rightarrow> True
         | Some c \<Rightarrow> errors_science c \<in> {SlotNull, SlotEmptyObject}
                     \<and> errors_gem c \<in> {SlotNull, SlotEmptyObject})
        \<and> filter (\<lambda>p. is_index_key (fst p)) (results g) = []
        \<longrightarrow> loadFromLocalStorage now g0 (saveToLocalStorage g ls) = (True, g\<lparr>isLoaded := True\<rparr>))"
proof -
  have r: "map_of_entries (fromEntries (results g)) = restored_order (results g)"
    using assms(5,6) by (rule string_keys_roundtrip)
  have 1: "loadFromLocalStorage now g0 (saveToLocalStorage g ls) =
           (True, \<lparr>competitions = map_option json_catalogue (competitions g),
                   results = restored_order (results g), lastUpdated = lastUpdated g,
                   isLoaded = True\<rparr>)"
    using assms(1-4) by (simp add: loadFromLocalStorage_def saveToLocalStorage_def r)
  have 2: "map_option json_catalogue (competitions g) = competitions g"
    if "case competitions g of
           None \<Rightarrow> True
         | Some c \<Rightarrow> errors_science c \<in> {SlotNull, SlotEmptyObject}
                     \<and> errors_gem c \<in> {SlotNull, SlotEmptyObject}"
    using that by (auto simp: json_catalogue_def split: option.splits)
  have 3: "\<forall>k. map_get (restored_order (results g)) k = map_get (results g) k"
    using map_of_restored_order[OF assms(6)] by (simp add: map_get_def)
  have 4: "mset (restored_order (results g)) = mset (results g)"
    by (rule mset_restored_order)
  have 5: "restored_order (results g) = results g"
    if "filter (\<lambda>p. is_index_key (fst p)) (results g) = []"
    using that by (rule restored_order_no_index)
  have 6: "loadFromLocalStorage now g0 (saveToLocalStorage g ls) = (True, g\<lparr>isLoaded := True\<rparr>)"
    if a: "case competitions g of
           None \<Rightarrow> True
         | Some c \<Rightarrow> errors_science c \<in> {SlotNull, SlotEmptyObject}
                     \<and> errors_gem c \<in> {SlotNull, SlotEmptyObject}"
      and b: "filter (\<lambda>p. is_index_key (fst p)) (results g) = []"
    unfolding 1 2[OF a] 5[OF b] by simp
  show ?thesis
    using 1 3 4 6 by blast
qed

theorem persist_then_restore_witness:
  "available empty_storage
   \<and> lastUpdated (example_snapshot\<lparr>results := [(JStr (js ''b''), [empty_row]), (JStr (js ''1''), [])]\<rparr>)
       = Some 1700000000000
   \<and> 1700000000001 - 1700000000000 \<le> CACHE_TIMEOUT
   \<and> list_all is_string [JStr (js ''b''), JStr (js ''1'')]
   \<and> distinct [JStr (js ''b''), JStr (js ''1'')]
   \<and> loadFromLocalStorage 1700000000001 initial_cache
        (saveToLocalStorage
           (example_snapshot\<lparr>results := [(JStr (js ''b''), [empty_row]), (JStr (js ''1''), [])]\<rparr>)
           empty_storage) =
      (True, \<lparr>competitions = map_option json_catalogue (competitions example_snapshot),
              results = [(JStr (js ''1''), []), (JStr (js ''b''), [empty_row])],
              lastUpdated = Some 1700000000000, isLoaded = True\<rparr>)"
  using persist_then_restore
    [of empty_storage
        "example_snapshot\<lparr>results := [(JStr (js ''b''), [empty_row]), (JStr (js ''1''), [])]\<rparr>"
        1700000000000 1700000000001 initial_cache]
  by (simp add: example_snapshot_def empty_storage_def CACHE_TIMEOUT_def restored_order_def
      is_index_key_def array_index_def index_or_zero_def digits_value_def digit_value_def
      js_def)
section \<open>Invalid competition records are excluded\<close>

text \<open>
  C5. For every catalogue and every record \<open>r\<close> lacking a non-empty id or a non-empty
  name, loading the catalogue gives the same manager as loading it with \<open>r\<close> removed,
  and every competition that \<open>getAllCompetitions\<close>, \<open>getCompetitionsByCategory\<close> or
  \<open>getCompetitionById\<close> returns is the normalized form of a record other than \<open>r\<close>
  that has both fields.
\<close>

theorem invalid_competitions_excluded:
  assumes "raw_id r \<in> {JUndefined, JNull, JStr []} \<or> raw_name r \<in> {JUndefined, JNull, JStr []}"
  shows "loadAllCompetitions m (Inr cat) =
           loadAllCompetitions m
             (Inr (cat\<lparr>science := removeAll r (science cat), gem := removeAll r (gem cat)\<rparr>))
    \<and> loadFromGlobalCache (g\<lparr>competitions := Some cat\<rparr>) m =
        loadFromGlobalCache
          (g\<lparr>competitions :=
               Some (cat\<lparr>science := removeAll r (science cat), gem := removeAll r (gem cat)\<rparr>)\<rparr>) m
    \<and> (\<forall>m'. loadAllCompetitions m (Inr cat) = Inr m' \<or>
             loadFromGlobalCache (g\<lparr>competitions := Some cat\<rparr>) m = Inr m' \<longrightarrow>
          (\<forall>c \<in> set (getAllCompetitions m'). from_valid_record cat r c) \<and>
          (\<forall>k. \<forall>c \<in> set (getCompetitionsByCategory m' k). from_valid_record cat r c) \<and>
          (\<forall>i c. getCompetitionById m' i = Some c \<longrightarrow> from_valid_record cat r c))"
proof -
  from assms have inv: "\<not> validateCompetition r"
    by (auto simp: validateCompetition_iff field_present_def)
  have 1: "loadAllCompetitions m (Inr cat) =
           loadAllCompetitions m
             (Inr (cat\<lparr>science := removeAll r (science cat), gem := removeAll r (gem cat)\<rparr>))"
    by (simp add: loadAllCompetitions_def processCompetitions_removeAll[OF inv])
  have 2: "loadFromGlobalCache (g\<lparr>competitions := Some cat\<rparr>) m =
        loadFromGlobalCache
          (g\<lparr>competitions :=
               Some (cat\<lparr>science := removeAll r (science cat), gem := removeAll r (gem cat)\<rparr>)\<rparr>) m"
    by (simp add: loadFromGlobalCache_def processCompetitions_removeAll[OF inv])
  have 3: "(\<forall>c \<in> set (getAllCompetitions m'). from_valid_record cat r c) \<and>
          (\<forall>k. \<forall>c \<in> set (getCompetitionsByCategory m' k). from_valid_record cat r c) \<and>
          (\<forall>i c. getCompetitionById m' i = Some c \<longrightarrow> from_valid_record cat r c)"
    if ld: "loadAllCompetitions m (Inr cat) = Inr m' \<or>
             loadFromGlobalCache (g\<lparr>competitions := Some cat\<rparr>) m = Inr m'" for m'
  proof (intro conjI allI ballI impI)
    fix c assume "c \<in> set (getAllCompetitions m')"
    then show "from_valid_record cat r c"
      using loaded_all_elem[OF inv ld, of c] by (simp add: getAllCompetitions_def)
  next
    fix k c assume "c \<in> set (getCompetitionsByCategory m' k)"
    then show "from_valid_record cat r c"
      using loaded_all_elem[OF inv ld, of c] getCompetitionsByCategory_subset[of m' k] by blast
  next
    fix i c assume "getCompetitionById m' i = Some c"
    then show "from_valid_record cat r c"
      using loaded_all_elem[OF inv ld, of c] getCompetitionById_elem[of m' i c] by blast
  qed
  show ?thesis using 1 2 3 by blast
qed

theorem invalid_competitions_excluded_witness:
  "(raw_id (example_competition (JStr (js ''x'')) (JStr [])) \<in> {JUndefined, JNull, JStr []} \<or>
    raw_name (example_competition (JStr (js ''x'')) (JStr [])) \<in> {JUndefined, JNull, JStr []})
   \<and> (\<exists>m'. loadAllCompetitions new_manager (Inr example_catalogue) = Inr m'
        \<and> map c_id (getAllCompetitions m') = [js ''rov'']
        \<and> (\<forall>c \<in> set (getAllCompetitions m').
              from_valid_record example_catalogue
                (example_competition (JStr (js ''x'')) (JStr [])) c))"
proof -
  have h: "raw_id (example_competition (JStr (js ''x'')) (JStr [])) \<in> {JUndefined, JNull, JStr []} \<or>
    raw_name (example_competition (JStr (js ''x'')) (JStr [])) \<in> {JUndefined, JNull, JStr []}"
    by (simp add: example_competition_def)
  have f: "filter validateCompetition (science example_catalogue) =
             [example_competition (JStr (js ''rov'')) (JStr (js ''ROV''))]"
          "filter validateCompetition (gem example_catalogue) = []"
    by (simp_all add: example_catalogue_def example_competition_def validateCompetition_def
        field_present_def js_def)
  obtain m' where m': "loadAllCompetitions new_manager (Inr example_catalogue) = Inr m'"
    by (simp add: loadAllCompetitions_def Let_def)
  have ids: "map c_id (getAllCompetitions m') = [js ''rov'']"
    using m'
    by (auto simp: loadAllCompetitions_def Let_def getAllCompetitions_def processCompetitions_def
        f normalizeCompetition_def example_competition_def trim_def is_space_def js_def)
  from invalid_competitions_excluded[OF h, of new_manager example_catalogue] m'
  have 4: "\<forall>c \<in> set (getAllCompetitions m').
              from_valid_record example_catalogue
                (example_competition (JStr (js ''x'')) (JStr [])) c"
    by blast
  have "\<exists>m'. loadAllCompetitions new_manager (Inr example_catalogue) = Inr m'
        \<and> map c_id (getAllCompetitions m') = [js ''rov'']
        \<and> (\<forall>c \<in> set (getAllCompetitions m').
              from_valid_record example_catalogue
                (example_competition (JStr (js ''x'')) (JStr [])) c)"
    using m' ids 4 by (intro exI[of _ m']) simp
  with h show ?thesis by (rule conjI)
qed

section \<open>Which result rows are retained\<close>

text \<open>
  The claim C6 as stated, that a row is retained if and only if it has a non-blank school
  name or award under its English or its Thai field name, fails. \<open>validateResult\<close>
  reads \<open>result.school ?? result[Thai name]\<close>, so an empty English school hides a
  Thai one: the row is dropped, and its normalized school is empty. And a value is only
  looked at when it is truthy, so a school that is the number 0 counts as missing,
  although its normalized form is the text \<open>0\<close>.
\<close>

theorem thai_name_behind_empty_english_counterexample:
  "named_in_either (empty_row\<lparr>rr_school := JStr [], rr_school_th := JStr (js ''ABC'')\<rparr>)
   \<and> processResults codeUnitCompare
       (Array [empty_row\<lparr>rr_school := JStr [], rr_school_th := JStr (js ''ABC'')\<rparr>]) JNull = []
   \<and> r_school (normalizeResult
         (empty_row\<lparr>rr_school := JStr [], rr_school_th := JStr (js ''ABC'')\<rparr>) JNull) = []
   \<and> named_in_either (empty_row\<lparr>rr_school := JNum 0\<rparr>)
   \<and> processResults codeUnitCompare (Array [empty_row\<lparr>rr_school := JNum 0\<rparr>]) JNull = []
   \<and> r_school (normalizeResult (empty_row\<lparr>rr_school := JNum 0\<rparr>) JNull) = js ''0''"
  by (simp add: named_in_either_def holds_name_def processResults_def validateResult_def
      normalizeResult_def empty_row_def coalesce_def trim_def is_space_def int_to_string_def
      digits_of.simps js_def array_sort_def)

text \<open>
  C6, amended. For every list of raw result rows, the normalized list that
  \<open>processResults\<close> returns holds exactly the normalized forms of the rows that have a
  non-blank school name or a non-blank award, where the name is the English property, or
  the Thai one when the English one is null or absent, and it is non-blank when it is a
  string with a character other than white space, a number other than 0, or true. A row
  with an empty school and the champion award is retained; a row with both empty is
  dropped; a payload that is not an array gives no result.
\<close>

theorem processResults_retains_rows_with_school_or_award:
  "mset (processResults lc (Array rawResults) cid) =
     mset (map (\<lambda>r. normalizeResult r cid) (filter has_school_or_award rawResults))
   \<and> processResults lc (Array [r\<lparr>rr_school := JStr [], rr_award := JStr NAME_CHAMPION\<rparr>]) cid =
       [normalizeResult (r\<lparr>rr_school := JStr [], rr_award := JStr NAME_CHAMPION\<rparr>) cid]
   \<and> processResults lc (Array [r\<lparr>rr_school := JStr [], rr_award := JStr []\<rparr>]) cid = []
   \<and> processResults lc NotAnArray cid = []"
proof -
  have f: "filter validateResult rawResults = filter has_school_or_award rawResults"
    by (rule filter_cong) (simp_all add: validateResult_iff)
  have 1: "mset (processResults lc (Array rawResults) cid) =
     mset (map (\<lambda>r. normalizeResult r cid) (filter has_school_or_award rawResults))"
    by (simp add: processResults_Array mset_array_sort f)
  have 2: "validateResult (r\<lparr>rr_school := JStr [], rr_award := JStr NAME_CHAMPION\<rparr>)"
    by (simp add: validateResult_def coalesce_def NAME_CHAMPION_nonblank)
  have 3: "\<not> validateResult (r\<lparr>rr_school := JStr [], rr_award := JStr []\<rparr>)"
    by (simp add: validateResult_def coalesce_def)
  show ?thesis
    using 1 2 3 by (simp add: processResults_Array array_sort_def) (simp add: processResults_def)
qed

theorem processResults_retains_witness:
  "mset (processResults codeUnitCompare
        (Array [empty_row\<lparr>rr_school := JStr [], rr_award_th := JStr NAME_CHAMPION\<rparr>,
                empty_row\<lparr>rr_school_th := JStr (js ''  ''), rr_award := JNull\<rparr>,
                empty_row\<lparr>rr_school := JStr [], rr_school_th := JStr (js ''ABC'')\<rparr>,
                empty_row\<lparr>rr_award := JBool False\<rparr>]) JNull) =
     {#normalizeResult (empty_row\<lparr>rr_school := JStr [], rr_award_th := JStr NAME_CHAMPION\<rparr>) JNull#}"
  using processResults_retains_rows_with_school_or_award
    [of codeUnitCompare
        "[empty_row\<lparr>rr_school := JStr [], rr_award_th := JStr NAME_CHAMPION\<rparr>,
          empty_row\<lparr>rr_school_th := JStr (js ''  ''), rr_award := JNull\<rparr>,
          empty_row\<lparr>rr_school := JStr [], rr_school_th := JStr (js ''ABC'')\<rparr>,
          empty_row\<lparr>rr_award := JBool False\<rparr>]"
        JNull]
  by (simp add: empty_row_def has_school_or_award_def preferred_def is_space_def js_def
      NAME_CHAMPION_def)
section \<open>Ordering by award tier\<close>

text \<open>
  The claim C7 as stated, that an unrecognized award sorts after all recognized tiers,
  fails: \<open>getAwardConfig\<close> gives an unrecognized name the participant tier, so with
  equal rank and school it compares equal to a participant award and the stable sort
  leaves it in front. An unrecognized name that \<open>awardMap\<close> inherits from
  \<open>Object.prototype\<close> has no tier at all: its comparison with the champion award
  is \<open>NaN\<close>, and the sort leaves it in front of the champion.
\<close>

theorem unrecognized_award_counterexample:
  "js ''xyz'' \<noteq> [] \<and> js ''xyz'' \<notin> fst ` set awardMap
   \<and> NAME_PARTICIPANT \<in> fst ` set awardMap
   \<and> compareResults codeUnitCompare
       (example_result (Some 1) (js ''xyz'') (js ''S''))
       (example_result (Some 1) NAME_PARTICIPANT (js ''S'')) = Finite 0
   \<and> array_sort (compareResults codeUnitCompare)
       [example_result (Some 1) (js ''xyz'') (js ''S''),
        example_result (Some 1) NAME_PARTICIPANT (js ''S'')] =
       [example_result (Some 1) (js ''xyz'') (js ''S''),
        example_result (Some 1) NAME_PARTICIPANT (js ''S'')]
   \<and> js ''constructor'' \<noteq> [] \<and> js ''constructor'' \<notin> fst ` set awardMap
   \<and> NAME_CHAMPION \<in> fst ` set awardMap
   \<and> compareResults codeUnitCompare
       (example_result (Some 1) (js ''constructor'') (js ''S''))
       (example_result (Some 1) NAME_CHAMPION (js ''S'')) = NaN
   \<and> array_sort (compareResults codeUnitCompare)
       [example_result (Some 1) (js ''constructor'') (js ''S''),
        example_result (Some 1) NAME_CHAMPION (js ''S'')] =
       [example_result (Some 1) (js ''constructor'') (js ''S''),
        example_result (Some 1) NAME_CHAMPION (js ''S'')]"
proof -
  have k: "js ''xyz'' \<noteq> [] \<and> js ''xyz'' \<notin> fst ` set awardMap
      \<and> NAME_PARTICIPANT \<in> fst ` set awardMap
      \<and> js ''constructor'' \<noteq> [] \<and> js ''constructor'' \<notin> fst ` set awardMap
      \<and> NAME_CHAMPION \<in> fst ` set awardMap"
    by (simp add: awardMap_def NAME_PARTICIPANT_def NAME_CHAMPION_def NAME_HONORABLE_def
        NAME_RUNNER_UP_def js_def)
  have x: "compareResults codeUnitCompare
       (example_result (Some 1) (js ''xyz'') (js ''S''))
       (example_result (Some 1) NAME_PARTICIPANT (js ''S'')) = Finite 0"
    using getAwardConfig_xyz getAwardConfig_participant
    by (simp add: example_result_def compareResults_def js_def)
  have c: "compareResults codeUnitCompare
       (example_result (Some 1) (js ''constructor'') (js ''S''))
       (example_result (Some 1) NAME_CHAMPION (js ''S'')) = NaN"
    by (simp add: example_result_def compareResults_def getAwardConfig_constructor
        getAwardConfig_champion)
  show ?thesis
    using k by (simp add: array_sort_def x c)
qed

text \<open>
  C7, amended. For every two results tied on numeric rank: when both awards have a tier
  and the tiers differ, the comparison is the difference of the tier ranks; a non-empty
  award sorts before a missing one; an unrecognized non-empty award that is not the name
  of a member of \<open>Object.prototype\<close> has the participant tier (rank 6), so it sorts
  after every tier of rank below 6 and ties with the participant tier, where the school
  name decides. In particular the champion award sorts before the honorable mention,
  which sorts before such an unrecognized award.
\<close>

theorem compareResults_orders_by_award_tier:
  assumes "r_rank a = r_rank b"
  shows "(\<forall>A B. getAwardConfig (r_award a) = Some (Config A)
              \<and> getAwardConfig (r_award b) = Some (Config B) \<and> a_rank A \<noteq> a_rank B
            \<longrightarrow> compareResults lc a b = Finite (a_rank A - a_rank B))
    \<and> (r_award a \<noteq> [] \<and> r_award b = [] \<longrightarrow> compareResults lc a b = Finite (- 1))
    \<and> (r_award a = [] \<and> r_award b \<noteq> [] \<longrightarrow> compareResults lc a b = Finite 1)
    \<and> (r_award b \<noteq> [] \<and> r_award b \<notin> fst ` set awardMap
         \<and> r_award b \<notin> set OBJECT_PROTOTYPE_MEMBERS
          \<longrightarrow> getAwardConfig (r_award b) = Some (Config PARTICIPANT) \<and> a_rank PARTICIPANT = 6
            \<and> (\<forall>A. getAwardConfig (r_award a) = Some (Config A) \<and> a_rank A < 6
                  \<longrightarrow> negative (compareResults lc a b))
            \<and> (r_award a = NAME_PARTICIPANT
                  \<longrightarrow> compareResults lc a b = Finite (lc (r_school a) (r_school b))))
    \<and> (r_award a = NAME_CHAMPION \<and> r_award b = NAME_HONORABLE
          \<longrightarrow> negative (compareResults lc a b))
    \<and> (r_award a = NAME_HONORABLE \<and> r_award b \<noteq> [] \<and> r_award b \<notin> fst ` set awardMap
         \<and> r_award b \<notin> set OBJECT_PROTOTYPE_MEMBERS
          \<longrightarrow> negative (compareResults lc a b))"
proof -
  have t: "compareResults lc a b =
     (case (getAwardConfig (r_award a), getAwardConfig (r_award b)) of
        (Some A, Some B) \<Rightarrow>
          if lookup_rank A \<noteq> lookup_rank B
          then rank_minus (lookup_rank A) (lookup_rank B)
          else Finite (lc (r_school a) (r_school b))
      | (Some A, None) \<Rightarrow> Finite (- 1)
      | (None, Some B) \<Rightarrow> Finite 1
      | (None, None) \<Rightarrow> Finite (lc (r_school a) (r_school b)))"
    using assms by (rule compareResults_tied)
  have 1: "\<forall>A B. getAwardConfig (r_award a) = Some (Config A)
              \<and> getAwardConfig (r_award b) = Some (Config B) \<and> a_rank A \<noteq> a_rank B
            \<longrightarrow> compareResults lc a b = Finite (a_rank A - a_rank B)"
    by (simp add: t)
  have 2: "r_award a \<noteq> [] \<and> r_award b = [] \<longrightarrow> compareResults lc a b = Finite (- 1)"
    by (auto simp: t getAwardConfig_def)
  have 3: "r_award a = [] \<and> r_award b \<noteq> [] \<longrightarrow> compareResults lc a b = Finite 1"
    by (auto simp: t getAwardConfig_def)
  have 4: "r_award b \<noteq> [] \<and> r_award b \<notin> fst ` set awardMap
         \<and> r_award b \<notin> set OBJECT_PROTOTYPE_MEMBERS
          \<longrightarrow> getAwardConfig (r_award b) = Some (Config PARTICIPANT) \<and> a_rank PARTICIPANT = 6
            \<and> (\<forall>A. getAwardConfig (r_award a) = Some (Config A) \<and> a_rank A < 6
                  \<longrightarrow> negative (compareResults lc a b))
            \<and> (r_award a = NAME_PARTICIPANT
                  \<longrightarrow> compareResults lc a b = Finite (lc (r_school a) (r_school b)))"
    by (auto simp: t getAwardConfig_unrecognized getAwardConfig_participant PARTICIPANT_def)
  have 5: "r_award a = NAME_CHAMPION \<and> r_award b = NAME_HONORABLE
          \<longrightarrow> negative (compareResults lc a b)"
    by (simp add: t getAwardConfig_champion getAwardConfig_honorable CHAMPION_def HONORABLE_def)
  have 6: "r_award a = NAME_HONORABLE \<and> r_award b \<noteq> [] \<and> r_award b \<notin> fst ` set awardMap
         \<and> r_award b \<notin> set OBJECT_PROTOTYPE_MEMBERS
          \<longrightarrow> negative (compareResults lc a b)"
    by (simp add: t getAwardConfig_unrecognized getAwardConfig_honorable PARTICIPANT_def
        HONORABLE_def)
  show ?thesis using 1 2 3 4 5 6 by blast
qed

theorem compareResults_orders_by_award_tier_witness:
  "r_rank (example_result (Some 2) NAME_CHAMPION (js ''B''))
     = r_rank (example_result (Some 2) NAME_HONORABLE (js ''A''))
   \<and> compareResults codeUnitCompare
       (example_result (Some 2) NAME_CHAMPION (js ''B''))
       (example_result (Some 2) NAME_HONORABLE (js ''A'')) = Finite (- 4)"
  using compareResults_orders_by_award_tier
    [of "example_result (Some 2) NAME_CHAMPION (js ''B'')"
        "example_result (Some 2) NAME_HONORABLE (js ''A'')" codeUnitCompare]
  by (simp add: example_result_def getAwardConfig_champion getAwardConfig_honorable
      CHAMPION_def HONORABLE_def)

section \<open>Ordering of normalized results by rank\<close>

text \<open>
  The claim C8 as stated fails in its last part: two entries with a null rank tie on
  rank, so \<open>compareResults\<close> goes on to compare their award tiers. In the example
  the second null-ranked row holds the champion award and the first one an honorable
  mention, and the sorted list has them in the opposite order.
\<close>

theorem null_ranks_reordered_counterexample:
  "map (\<lambda>r. r_rank (normalizeResult r JNull)) example_rows = [Some 3, None, Some 1, None]
   \<and> processResults codeUnitCompare (Array example_rows) JNull =
       [normalizeResult (example_rows ! 2) JNull, normalizeResult (example_rows ! 0) JNull,
        normalizeResult (example_rows ! 3) JNull, normalizeResult (example_rows ! 1) JNull]"
proof -
  have v: "filter validateResult example_rows = example_rows"
    using example_rows_valid by simp
  have n: "map (\<lambda>r. normalizeResult r JNull) example_rows ! 0 = normalizeResult (example_rows ! 0) JNull"
     "map (\<lambda>r. normalizeResult r JNull) example_rows ! 1 = normalizeResult (example_rows ! 1) JNull"
     "map (\<lambda>r. normalizeResult r JNull) example_rows ! 2 = normalizeResult (example_rows ! 2) JNull"
     "map (\<lambda>r. normalizeResult r JNull) example_rows ! 3 = normalizeResult (example_rows ! 3) JNull"
    by (simp_all add: example_rows_def)
  have p: "processResults codeUnitCompare (Array example_rows) JNull =
       [example_result (Some 1) [] (js ''C''), example_result (Some 3) [] (js ''A''),
        example_result None NAME_CHAMPION (js ''D''), example_result None NAME_HONORABLE (js ''B'')]"
    unfolding processResults_Array v example_rows_normalized
    by (simp add: array_sort_def compareResults_def toNum_def example_result_def
        getAwardConfig_champion getAwardConfig_honorable CHAMPION_def HONORABLE_def
        getAwardConfig_Nil)
  have r: "map (\<lambda>r. r_rank (normalizeResult r JNull)) example_rows = [Some 3, None, Some 1, None]"
    using arg_cong[OF example_rows_normalized, of "map r_rank"]
    by (simp add: example_result_def comp_def)
  show ?thesis
    using p r n example_rows_normalized by simp
qed

text \<open>
  C8, amended. For every list of valid rows whose parsed ranks are 3, null, 1, null,
  \<open>processResults\<close> returns them with ranks 1, 3, null, null: the entries with a
  null rank come after all ranked entries. The two null-ranked entries keep their
  original relative order unless \<open>compareResults\<close>, which goes on to the award tier
  and then the school name, is positive on them, and then the later one comes first.
\<close>

theorem processResults_rank_order:
  assumes "\<forall>r \<in> set rawResults. validateResult r"
      and "map (\<lambda>r. r_rank (normalizeResult r cid)) rawResults = [Some 3, None, Some 1, None]"
  shows "map r_rank (processResults lc (Array rawResults) cid) = [Some 1, Some 3, None, None]
    \<and> (let ns = map (\<lambda>r. normalizeResult r cid) rawResults
       in processResults lc (Array rawResults) cid =
            (if positive (compareResults lc (ns ! 1) (ns ! 3))
             then [ns ! 2, ns ! 0, ns ! 3, ns ! 1]
             else [ns ! 2, ns ! 0, ns ! 1, ns ! 3]))"
proof -
  from assms(2) obtain x1 x2 x3 x4 where raws: "rawResults = [x1, x2, x3, x4]"
    and r1: "r_rank (normalizeResult x1 cid) = Some 3"
    and r2: "r_rank (normalizeResult x2 cid) = None"
    and r3: "r_rank (normalizeResult x3 cid) = Some 1"
    and r4: "r_rank (normalizeResult x4 cid) = None"
    by (auto simp: map_eq_Cons_conv)
  define n1 n2 n3 n4 where "n1 = normalizeResult x1 cid" and "n2 = normalizeResult x2 cid"
    and "n3 = normalizeResult x3 cid" and "n4 = normalizeResult x4 cid"
  have f: "filter validateResult rawResults = rawResults"
    using assms(1) by simp
  have c34: "compareResults lc n3 n4 = NegInfinity"
    using r3 r4 by (simp add: n3_def n4_def compareResults_ranked_null)
  have c23: "compareResults lc n2 n3 = PosInfinity"
    using r2 r3 by (simp add: n2_def n3_def compareResults_null_ranked)
  have c13: "compareResults lc n1 n3 = Finite 2"
    using r1 r3 compareResults_ranked[of n1 3 n3 1 lc] by (simp add: n1_def n3_def)
  have c12: "compareResults lc n1 n2 = NegInfinity"
    using r1 r2 by (simp add: n1_def n2_def compareResults_ranked_null)
  have c14: "compareResults lc n1 n4 = NegInfinity"
    using r1 r4 by (simp add: n1_def n4_def compareResults_ranked_null)
  have s: "processResults lc (Array rawResults) cid =
     (if positive (compareResults lc n2 n4) then [n3, n1, n4, n2] else [n3, n1, n2, n4])"
    unfolding processResults_Array f
    by (simp add: raws array_sort_def c34 c23 c13 c12 c14 n1_def[symmetric] n2_def[symmetric]
        n3_def[symmetric] n4_def[symmetric])
  have rk: "r_rank n1 = Some 3" "r_rank n2 = None" "r_rank n3 = Some 1" "r_rank n4 = None"
    using r1 r2 r3 r4 by (simp_all add: n1_def n2_def n3_def n4_def)
  have a: "map r_rank (processResults lc (Array rawResults) cid) = [Some 1, Some 3, None, None]"
    by (simp add: s rk)
  have b: "(let ns = map (\<lambda>r. normalizeResult r cid) rawResults
       in processResults lc (Array rawResults) cid =
            (if positive (compareResults lc (ns ! 1) (ns ! 3))
             then [ns ! 2, ns ! 0, ns ! 3, ns ! 1]
             else [ns ! 2, ns ! 0, ns ! 1, ns ! 3]))"
    using s by (simp add: raws Let_def n1_def n2_def n3_def n4_def)
  show ?thesis using a b by blast
qed

theorem processResults_rank_order_witness:
  "list_all validateResult example_rows
   \<and> map (\<lambda>r. r_rank (normalizeResult r JNull)) example_rows = [Some 3, None, Some 1, None]
   \<and> map r_rank (processResults codeUnitCompare (Array example_rows) JNull) =
       [Some 1, Some 3, None, None]"
proof -
  have r: "map (\<lambda>r. r_rank (normalizeResult r JNull)) example_rows = [Some 3, None, Some 1, None]"
    using arg_cong[OF example_rows_normalized, of "map r_rank"]
    by (simp add: example_result_def comp_def)
  show ?thesis
    using processResults_rank_order[OF example_rows_valid r, of codeUnitCompare]
      example_rows_valid r by (simp add: list_all_iff)
qed

section \<open>The bulk preload tolerates failed result fetches\<close>


section \<open>The accessors return fresh copies\<close>

text \<open>
  C10. For every manager state \<open>m\<close> held in a heap, each of \<open>getAllCompetitions\<close>,
  \<open>getCompetitionsByCategory\<close> and \<open>getCompetitionsGrouped\<close> returns arrays at
  addresses that are none of the manager's own, holding what the accessor returns on
  \<open>m\<close>; after any change \<open>f\<close> made in place to a returned array (appending,
  removing) the heap still holds the collections of \<open>m\<close>, and a subsequent call
  returns the same contents as before.
\<close>

theorem accessors_return_fresh_copies:
  assumes "manager_view refs h m"
  shows "(\<forall>a h1 a2 h2. getAllCompetitions_heap refs h = (a, h1) \<and>
            getAllCompetitions_heap refs (mutate a f h1) = (a2, h2)
          \<longrightarrow> a \<notin> {ref_science refs, ref_gem refs, ref_all refs}
            \<and> h1 ! a = getAllCompetitions m
            \<and> manager_view refs (mutate a f h1) m
            \<and> h2 ! a2 = getAllCompetitions m)
    \<and> (\<forall>a h1 a2 h2. getCompetitionsByCategory_heap refs k h = (a, h1) \<and>
            getCompetitionsByCategory_heap refs k (mutate a f h1) = (a2, h2)
          \<longrightarrow> a \<notin> {ref_science refs, ref_gem refs, ref_all refs}
            \<and> h1 ! a = getCompetitionsByCategory m k
            \<and> manager_view refs (mutate a f h1) m
            \<and> h2 ! a2 = getCompetitionsByCategory m k)
    \<and> (\<forall>g h1 a g2 h2. getCompetitionsGrouped_heap refs h = (g, h1) \<and>
            a \<in> {gr_science g, gr_gem g, gr_academic g} \<and>
            getCompetitionsGrouped_heap refs (mutate a f h1) = (g2, h2)
          \<longrightarrow> a \<notin> {ref_science refs, ref_gem refs, ref_all refs}
            \<and> h1 ! gr_science g = cm_science m \<and> h1 ! gr_gem g = cm_gem m
            \<and> h1 ! gr_academic g = cm_gem m
            \<and> manager_view refs (mutate a f h1) m
            \<and> h2 ! gr_science g2 = cm_science m \<and> h2 ! gr_gem g2 = cm_gem m
            \<and> h2 ! gr_academic g2 = cm_gem m)"
proof (intro conjI allI impI)
  fix a h1 a2 h2
  assume "getAllCompetitions_heap refs h = (a, h1) \<and>
            getAllCompetitions_heap refs (mutate a f h1) = (a2, h2)"
  then have 1: "getAllCompetitions_heap refs h = (a, h1)"
    and 2: "getAllCompetitions_heap refs (mutate a f h1) = (a2, h2)" by simp_all
  note v = getAllCompetitions_heap_view[OF assms 1]
  show "a \<notin> {ref_science refs, ref_gem refs, ref_all refs}"
    using assms 1 by (auto simp: getAllCompetitions_heap_def alloc_def manager_view_def)
  show "h1 ! a = getAllCompetitions m" by (rule v(1))
  show "manager_view refs (mutate a f h1) m" by (rule v(2))
  show "h2 ! a2 = getAllCompetitions m"
    using getAllCompetitions_heap_view(1)[OF v(2) 2] .
next
  fix a h1 a2 h2
  assume "getCompetitionsByCategory_heap refs k h = (a, h1) \<and>
            getCompetitionsByCategory_heap refs k (mutate a f h1) = (a2, h2)"
  then have 1: "getCompetitionsByCategory_heap refs k h = (a, h1)"
    and 2: "getCompetitionsByCategory_heap refs k (mutate a f h1) = (a2, h2)" by simp_all
  note v = getCompetitionsByCategory_heap_view[OF assms 1]
  show "a \<notin> {ref_science refs, ref_gem refs, ref_all refs}"
    using assms 1
    by (auto simp: getCompetitionsByCategory_heap_alloc alloc_def manager_view_def)
  show "h1 ! a = getCompetitionsByCategory m k" by (rule v(1))
  show "manager_view refs (mutate a f h1) m" by (rule v(2))
  show "h2 ! a2 = getCompetitionsByCategory m k"
    using getCompetitionsByCategory_heap_view(1)[OF v(2) 2] .
next
  fix g h1 a g2 h2
  assume "getCompetitionsGrouped_heap refs h = (g, h1) \<and>
            a \<in> {gr_science g, gr_gem g, gr_academic g} \<and>
            getCompetitionsGrouped_heap refs (mutate a f h1) = (g2, h2)"
  then have 1: "getCompetitionsGrouped_heap refs h = (g, h1)"
    and a: "a \<in> {gr_science g, gr_gem g, gr_academic g}"
    and 2: "getCompetitionsGrouped_heap refs (mutate a f h1) = (g2, h2)" by simp_all
  note v = getCompetitionsGrouped_heap_view[OF assms 1]
  have mv: "manager_view refs (mutate a f h1) m" using v(4)[OF a] .
  note v2 = getCompetitionsGrouped_heap_view[OF mv 2]
  show "a \<notin> {ref_science refs, ref_gem refs, ref_all refs}"
    using assms 1 a
    by (auto simp: getCompetitionsGrouped_heap_def alloc_def manager_view_def)
  show "h1 ! gr_science g = cm_science m" "h1 ! gr_gem g = cm_gem m"
    "h1 ! gr_academic g = cm_gem m"
    using v(1-3) by (simp_all add: getCompetitionsGrouped_def)
  show "manager_view refs (mutate a f h1) m" by (rule mv)
  show "h2 ! gr_science g2 = cm_science m" "h2 ! gr_gem g2 = cm_gem m"
    "h2 ! gr_academic g2 = cm_gem m"
    using v2(1-3) by (simp_all add: getCompetitionsGrouped_def)
qed

theorem accessors_return_fresh_copies_witness:
  "manager_view example_refs example_heap example_manager
   \<and> getAllCompetitions_heap example_refs example_heap = (3, example_heap @ [example_heap ! 2])
   \<and> mutate 3 (\<lambda>xs. []) (example_heap @ [example_heap ! 2]) = example_heap @ [[]]
   \<and> getAllCompetitions_heap example_refs (example_heap @ [[]])
       = (4, example_heap @ [[], example_heap ! 2])
   \<and> (example_heap @ [[], example_heap ! 2]) ! 4 = getAllCompetitions example_manager
   \<and> manager_view example_refs (example_heap @ [[]]) example_manager"
proof -
  have v: "manager_view example_refs example_heap example_manager"
    by (simp add: manager_view_def example_refs_def example_heap_def example_manager_def)
  have 1: "getAllCompetitions_heap example_refs example_heap = (3, example_heap @ [example_heap ! 2])"
    by (simp add: getAllCompetitions_heap_def alloc_def example_refs_def example_heap_def)
  have m: "mutate 3 (\<lambda>xs. []) (example_heap @ [example_heap ! 2]) = example_heap @ [[]]"
    by (simp add: mutate_def example_heap_def)
  have 2: "getAllCompetitions_heap example_refs (mutate 3 (\<lambda>xs. []) (example_heap @ [example_heap ! 2]))
       = (4, example_heap @ [[], example_heap ! 2])"
    unfolding m by (simp add: getAllCompetitions_heap_def alloc_def example_refs_def example_heap_def)
  from accessors_return_fresh_copies[OF v, of "\<lambda>xs. []"] 1 2
  have "(example_heap @ [[], example_heap ! 2]) ! 4 = getAllCompetitions example_manager"
    and "manager_view example_refs (mutate 3 (\<lambda>xs. []) (example_heap @ [example_heap ! 2])) example_manager"
    by blast+
  with v 1 2 m show ?thesis by simp
qed

end
